theory Spec2Isabelle
  imports
    Complex_Main
    "HOL-Library.Word"
    "HOL-Library.Sublist"
    "HOL-Library.Signed_Division"
    "HOL-Library.Log_Nat"
begin

section \<open>Go values used by \<open>modal-go/app.go\<close>\<close>

text \<open>
  Go's \<open>int\<close> is modelled at its width on 64-bit platforms; \<open>uint32\<close> is a 32-bit word.
  A pointer \<open>*T\<close> is a \<open>T option\<close>, \<open>None\<close> being \<open>nil\<close>; reading a field through
  \<open>nil\<close> panics, which the model returns as \<open>NilDereference\<close>.  A slice is a list
  (a \<open>nil\<close> slice and an empty one are both \<open>[]\<close>, as they are on the wire).
\<close>

type_synonym go_int = "64 word"
type_synonym uint32 = "32 word"

text \<open>
  A \<open>float64\<close> is its IEEE 754 binary64 bit pattern, and a \<open>time.Duration\<close> is an
  \<open>int64\<close> count of nanoseconds.
\<close>

type_synonym float64 = "64 word"
type_synonym Duration = "64 word"

text \<open>\<open>codes.Code\<close> of \<open>google.golang.org/grpc/codes\<close>.\<close>

datatype Code =
    OK | Canceled | Unknown | InvalidArgument | DeadlineExceeded | NotFound
  | AlreadyExists | PermissionDenied | ResourceExhausted | FailedPrecondition
  | Aborted | OutOfRange | Unimplemented | Internal | Unavailable | DataLoss
  | Unauthenticated

text \<open>
  A value of Go's \<open>error\<close> interface: an error that carries a gRPC status (code and
  message), the package's own \<open>NotFoundError\<close> (a struct around its message), or any
  other error.
\<close>

datatype go_error =
    StatusError Code string
  | NotFoundError string
  | OtherError string

text \<open>
  \<open>status.FromError\<close>, reduced to what \<open>AppLookup\<close> reads from it: the status code and
  the \<open>ok\<close> flag.  A \<open>nil\<close> error gives \<open>(OK, true)\<close>; an error without a gRPC status
  gives \<open>(Unknown, false)\<close>.
\<close>

fun FromError :: "go_error option \<Rightarrow> Code \<times> bool" where
  "FromError None = (OK, True)"
| "FromError (Some (StatusError c m)) = (c, True)"
| "FromError (Some (NotFoundError m)) = (Unknown, False)"
| "FromError (Some (OtherError m)) = (Unknown, False)"

datatype failure = NilDereference | Error go_error

subsection \<open>The package's structs\<close>

record 'c App =
  AppId :: string
  ctx :: 'c

record LookupOptions =
  Environment :: string
  CreateIfMissing :: bool

text \<open>
  \<open>Volume\<close>, \<open>Secret\<close>, \<open>Image\<close> and \<open>Sandbox\<close> are declared in other files of the
  package; each is given the fields this file reads or, for \<open>Sandbox\<close>, the two
  arguments of \<open>newSandbox\<close>.  In \<open>SandboxOptions\<close> the map \<open>Volumes\<close> is \<open>None\<close> when
  \<open>nil\<close>, and otherwise the list of its entries in the order in which \<open>range\<close> visits
  them (an order Go leaves unspecified).
\<close>

record Volume =
  VolumeId :: string

record Secret =
  SecretId :: string

record Image =
  ImageId :: string

record 'c Sandbox =
  SandboxId :: string
  ctx :: 'c

record SandboxOptions =
  CPU :: float64
  Memory :: go_int
  Timeout :: Duration
  Command :: "string list"
  Volumes :: "(string \<times> Volume option) list option"
  EncryptedPorts :: "go_int list"
  H2Ports :: "go_int list"
  UnencryptedPorts :: "go_int list"

record ImageFromRegistryOptions =
  Secret :: "Secret option"

subsection \<open>The protobuf messages built by this file\<close>

datatype ObjectCreationType =
    OBJECT_CREATION_TYPE_UNSPECIFIED
  | OBJECT_CREATION_TYPE_CREATE_IF_MISSING

record AppGetOrCreateRequest =
  AppName :: string
  EnvironmentName :: string
  ObjectCreationType :: ObjectCreationType

datatype TunnelType = TUNNEL_TYPE_UNSPECIFIED | TUNNEL_TYPE_H2

record PortSpec =
  Port :: uint32
  Unencrypted :: bool
  TunnelType :: "TunnelType option"

record PortSpecs =
  Ports :: "PortSpec list"

record VolumeMount =
  VolumeId :: string
  MountPath :: string
  AllowBackgroundCommits :: bool
  ReadOnly :: bool

datatype RegistryAuthType =
    REGISTRY_AUTH_TYPE_STATIC_CREDS
  | REGISTRY_AUTH_TYPE_AWS
  | REGISTRY_AUTH_TYPE_GCP

record ImageRegistryConfig =
  RegistryAuthType :: RegistryAuthType
  SecretId :: string

record Resources =
  MilliCpu :: uint32
  MemoryMb :: uint32

datatype NetworkAccessType = UNSPECIFIED | OPEN | BLOCKED | ALLOWLIST

record NetworkAccess =
  NetworkAccessType :: NetworkAccessType

text \<open>\<open>pb.Sandbox\<close>, the sandbox definition, with the fields this file sets.\<close>

record pb_Sandbox =
  EntrypointArgs :: "string list"
  ImageId :: string
  TimeoutSecs :: uint32
  NetworkAccess :: NetworkAccess
  Resources :: Resources
  VolumeMounts :: "VolumeMount list"
  OpenPorts :: "PortSpecs option"

record SandboxCreateRequest =
  AppId :: string
  Definition :: pb_Sandbox

record AppGetOrCreateResponse =
  AppId :: string

record SandboxCreateResponse =
  SandboxId :: string

text \<open>
  The getters of a response message accept a \<open>nil\<close> message and then return the
  field's zero value.
\<close>

definition GetAppId :: "AppGetOrCreateResponse option \<Rightarrow> string" where
  "GetAppId resp = (case resp of None \<Rightarrow> [] | Some r \<Rightarrow> AppGetOrCreateResponse.AppId r)"

definition GetSandboxId :: "SandboxCreateResponse option \<Rightarrow> string" where
  "GetSandboxId resp = (case resp of None \<Rightarrow> [] | Some r \<Rightarrow> SandboxCreateResponse.SandboxId r)"

subsection \<open>What the file uses and does not declare\<close>

text \<open>
  The RPC client is the package-level variable \<open>client\<close>; each call returns a response
  pointer and an error.  \<open>clientContext\<close>, \<open>environmentName\<close> and
  \<open>fromRegistryInternal\<close> are functions of other files of the package.  All of them are
  parameters of the model, with the signatures this file calls them at.
\<close>

record 'c Client =
  AppGetOrCreate ::
    "'c \<Rightarrow> AppGetOrCreateRequest \<Rightarrow> AppGetOrCreateResponse option \<times> go_error option"
  SandboxCreate ::
    "'c \<Rightarrow> SandboxCreateRequest \<Rightarrow> SandboxCreateResponse option \<times> go_error option"

record 'c package =
  client :: "'c Client"
  clientContext :: "'c \<Rightarrow> go_error + 'c"
  environmentName :: "string \<Rightarrow> string"
  fromRegistryInternal ::
    "'c App option \<Rightarrow> string \<Rightarrow> ImageRegistryConfig option \<Rightarrow> failure + Image"

text \<open>
  Modelled from the spec: \<open>newSandbox\<close>, declared with \<open>Sandbox\<close> in another file, returns
  a Sandbox handle wrapping the remote-assigned identifier and the App's context.
\<close>

definition newSandbox :: "'c \<Rightarrow> string \<Rightarrow> 'c Sandbox" where
  "newSandbox c sandboxId = \<lparr>Sandbox.SandboxId = sandboxId, Sandbox.ctx = c\<rparr>"

section \<open>Ports\<close>

text \<open>Go's conversion \<open>uint32(x)\<close> of an \<open>int\<close>: the low 32 bits.\<close>

definition uint32_int :: "go_int \<Rightarrow> uint32" where
  "uint32_int x = ucast x"

text \<open>The three loops of \<open>CreateSandbox\<close> that append to \<open>openPorts\<close>.\<close>

fun appendEncryptedPorts :: "PortSpec list \<Rightarrow> go_int list \<Rightarrow> PortSpec list" where
  "appendEncryptedPorts openPorts [] = openPorts"
| "appendEncryptedPorts openPorts (port # rest) =
     appendEncryptedPorts
       (openPorts @ [\<lparr>Port = uint32_int port, Unencrypted = False, TunnelType = None\<rparr>])
       rest"

fun appendH2Ports :: "PortSpec list \<Rightarrow> go_int list \<Rightarrow> PortSpec list" where
  "appendH2Ports openPorts [] = openPorts"
| "appendH2Ports openPorts (port # rest) =
     appendH2Ports
       (openPorts @
          [\<lparr>Port = uint32_int port, Unencrypted = False, TunnelType = Some TUNNEL_TYPE_H2\<rparr>])
       rest"

fun appendUnencryptedPorts :: "PortSpec list \<Rightarrow> go_int list \<Rightarrow> PortSpec list" where
  "appendUnencryptedPorts openPorts [] = openPorts"
| "appendUnencryptedPorts openPorts (port # rest) =
     appendUnencryptedPorts
       (openPorts @ [\<lparr>Port = uint32_int port, Unencrypted = True, TunnelType = None\<rparr>])
       rest"

text \<open>\<open>openPorts\<close> after the three loops, and the optional message made from it.\<close>

definition openPorts :: "go_int list \<Rightarrow> go_int list \<Rightarrow> go_int list \<Rightarrow> PortSpec list" where
  "openPorts encrypted h2 unencrypted =
     appendUnencryptedPorts (appendH2Ports (appendEncryptedPorts [] encrypted) h2) unencrypted"

definition portSpecs :: "PortSpec list \<Rightarrow> PortSpecs option" where
  "portSpecs ports = (if length ports > 0 then Some \<lparr>Ports = ports\<rparr> else None)"

section \<open>Volume mounts\<close>

text \<open>
  The loop over \<open>options.Volumes\<close>; a \<open>nil\<close> volume in an entry makes
  \<open>volume.VolumeId\<close> panic.
\<close>

fun appendVolumeMounts :: "VolumeMount list \<Rightarrow> (string \<times> Volume option) list \<Rightarrow> failure + VolumeMount list" where
  "appendVolumeMounts volumeMounts [] = Inr volumeMounts"
| "appendVolumeMounts volumeMounts ((mountPath, volume) # rest) =
     (case volume of
        None \<Rightarrow> Inl NilDereference
      | Some v \<Rightarrow>
          appendVolumeMounts
            (volumeMounts @
               [\<lparr>VolumeId = Volume.VolumeId v, MountPath = mountPath,
                 AllowBackgroundCommits = True, ReadOnly = False\<rparr>])
            rest)"

definition volumeMounts ::
  "(string \<times> Volume option) list option \<Rightarrow> failure + VolumeMount list" where
  "volumeMounts vols =
     (case vols of None \<Rightarrow> Inr [] | Some entries \<Rightarrow> appendVolumeMounts [] entries)"

section \<open>Floating point\<close>

text \<open>
  The value of a \<open>float64\<close>: a finite rational (\<open>Finite 0\<close> is \<open>+0\<close>), \<open>-0\<close>, an infinity
  or a NaN.  Arithmetic follows IEEE 754 binary64 with round-to-nearest, ties-to-even,
  which is what Go's \<open>float64\<close> operations compute.
\<close>

datatype float64_value = Finite rat | NegZero | PosInf | NegInf | NaN

text \<open>\<open>ilog2 a\<close> is the exponent \<open>e\<close> with \<open>2\<^sup>e \<le> a < 2\<^sup>e\<^sup>+\<^sup>1\<close>, for \<open>a > 0\<close>.\<close>

definition ilog2 :: "rat \<Rightarrow> int" where
  "ilog2 a =
     (let (n, d) = quotient_of a; k = bitlen n - bitlen d
      in if 2 powi k \<le> a then k else k - 1)"

definition round_half_even :: "rat \<Rightarrow> int" where
  "round_half_even x =
     (let f = \<lfloor>x\<rfloor>; r = x - of_int f
      in if r < 1 / 2 then f
         else if 1 / 2 < r then f + 1
         else if even f then f else f + 1)"

text \<open>
  Rounding to 53 significant bits, or to a multiple of \<open>2\<^sup>-\<^sup>1\<^sup>0\<^sup>7\<^sup>4\<close> in the subnormal
  range; a result of magnitude \<open>2\<^sup>1\<^sup>0\<^sup>2\<^sup>4\<close> or more overflows to an infinity.
\<close>

definition nearest_float64 :: "rat \<Rightarrow> rat" where
  "nearest_float64 x =
     (let p = max (ilog2 \<bar>x\<bar> - 52) (- 1074)
      in of_int (round_half_even (x / 2 powi p)) * 2 powi p)"

definition round_float64 :: "rat \<Rightarrow> float64_value" where
  "round_float64 x =
     (let y = nearest_float64 x
      in if 2 ^ 1024 \<le> y then PosInf
         else if y \<le> - (2 ^ 1024) then NegInf
         else if y = 0 \<and> x < 0 then NegZero
         else Finite y)"

fun sign_bit :: "float64_value \<Rightarrow> bool" where
  "sign_bit (Finite x) = (x < 0)"
| "sign_bit NegZero = True"
| "sign_bit PosInf = False"
| "sign_bit NegInf = True"
| "sign_bit NaN = False"

fun is_zero :: "float64_value \<Rightarrow> bool" where
  "is_zero (Finite x) = (x = 0)"
| "is_zero NegZero = True"
| "is_zero PosInf = False"
| "is_zero NegInf = False"
| "is_zero NaN = False"

fun is_inf :: "float64_value \<Rightarrow> bool" where
  "is_inf (Finite x) = False"
| "is_inf NegZero = False"
| "is_inf PosInf = True"
| "is_inf NegInf = True"
| "is_inf NaN = False"

fun value_of :: "float64_value \<Rightarrow> rat" where
  "value_of (Finite x) = x"
| "value_of NegZero = 0"
| "value_of PosInf = 0"
| "value_of NegInf = 0"
| "value_of NaN = 0"

definition infinity :: "bool \<Rightarrow> float64_value" where
  "infinity neg = (if neg then NegInf else PosInf)"

definition zero :: "bool \<Rightarrow> float64_value" where
  "zero neg = (if neg then NegZero else Finite 0)"

text \<open>The operators \<open>*\<close>, \<open>+\<close> and \<open>/\<close> on \<open>float64\<close>.\<close>

definition fmul :: "float64_value \<Rightarrow> float64_value \<Rightarrow> float64_value" where
  "fmul a b =
     (let neg = (sign_bit a \<noteq> sign_bit b)
      in if a = NaN \<or> b = NaN then NaN
         else if is_inf a \<or> is_inf b then
           (if is_zero a \<or> is_zero b then NaN else infinity neg)
         else if is_zero a \<or> is_zero b then zero neg
         else round_float64 (value_of a * value_of b))"

definition fadd :: "float64_value \<Rightarrow> float64_value \<Rightarrow> float64_value" where
  "fadd a b =
     (if a = NaN \<or> b = NaN then NaN
      else if is_inf a then (if is_inf b \<and> a \<noteq> b then NaN else a)
      else if is_inf b then b
      else if value_of a + value_of b = 0 then zero (sign_bit a \<and> sign_bit b)
      else round_float64 (value_of a + value_of b))"

definition fdiv :: "float64_value \<Rightarrow> float64_value \<Rightarrow> float64_value" where
  "fdiv a b =
     (let neg = (sign_bit a \<noteq> sign_bit b)
      in if a = NaN \<or> b = NaN then NaN
         else if is_inf a then (if is_inf b then NaN else infinity neg)
         else if is_inf b then zero neg
         else if is_zero b then (if is_zero a then NaN else infinity neg)
         else if is_zero a then zero neg
         else round_float64 (value_of a / value_of b))"

text \<open>
  The value of a bit pattern: sign bit, 11 exponent bits, 52 fraction bits
  (\<open>math.Float64frombits\<close>).
\<close>

definition Float64frombits :: "float64 \<Rightarrow> float64_value" where
  "Float64frombits w =
     (let neg = bit w 63; ex = take_bit 11 (drop_bit 52 w); frac = take_bit 52 w
      in if ex = 2047 then (if frac = 0 then infinity neg else NaN)
         else if ex = 0 \<and> frac = 0 then zero neg
         else let m = (if ex = 0 then uint frac else 2 ^ 52 + uint frac);
                  e = (if ex = 0 then - 1074 else uint ex - 1075);
                  x = of_int m * 2 powi e
              in Finite (if neg then - x else x))"

text \<open>The conversion \<open>float64(i)\<close> of an integer.\<close>

definition float64_int64 :: "int \<Rightarrow> float64_value" where
  "float64_int64 i = round_float64 (of_int i)"

text \<open>
  The conversion \<open>uint32(f)\<close> of a \<open>float64\<close> discards the fraction (truncation towards
  zero).  Where \<open>uint32\<close> cannot represent the value, the language leaves the result to
  the implementation: the parameter \<open>unrepresentable\<close> gives it.
\<close>

definition trunc :: "rat \<Rightarrow> int" where
  "trunc x = (if 0 \<le> x then \<lfloor>x\<rfloor> else \<lceil>x\<rceil>)"

definition uint32_float64 :: "(float64_value \<Rightarrow> uint32) \<Rightarrow> float64_value \<Rightarrow> uint32" where
  "uint32_float64 unrepresentable v =
     (case v of
        Finite x \<Rightarrow>
          if - 1 < x \<and> x < 2 ^ 32 then word_of_int (trunc x) else unrepresentable v
      | NegZero \<Rightarrow> 0
      | PosInf \<Rightarrow> unrepresentable v
      | NegInf \<Rightarrow> unrepresentable v
      | NaN \<Rightarrow> unrepresentable v)"

text \<open>
  \<open>time.Duration.Seconds\<close>: with \<open>sec := d / Second\<close> and \<open>nsec := d % Second\<close> (both
  truncating), it returns \<open>float64(sec) + float64(nsec)/1e9\<close>.
\<close>

definition Seconds :: "Duration \<Rightarrow> float64_value" where
  "Seconds d =
     (let sec = sint d sdiv 1000000000;
          nsec = sint d smod 1000000000
      in fadd (float64_int64 sec) (fdiv (float64_int64 nsec) (Finite 1000000000)))"

section \<open>\<open>AppLookup\<close>\<close>

text \<open>\<open>fmt.Sprintf("app '%s' not found", name)\<close>.\<close>

definition app_not_found :: "string \<Rightarrow> string" where
  "app_not_found name = ''app '' @ [CHR 0x27] @ name @ [CHR 0x27] @ '' not found''"

definition appGetOrCreateRequest ::
  "'c package \<Rightarrow> string \<Rightarrow> LookupOptions \<Rightarrow> AppGetOrCreateRequest" where
  "appGetOrCreateRequest pkg name options =
     \<lparr>AppName = name,
      EnvironmentName = environmentName pkg (Environment options),
      ObjectCreationType =
        (if CreateIfMissing options then OBJECT_CREATION_TYPE_CREATE_IF_MISSING
         else OBJECT_CREATION_TYPE_UNSPECIFIED)\<rparr>"

definition AppLookup ::
  "'c package \<Rightarrow> 'c \<Rightarrow> string \<Rightarrow> LookupOptions option \<Rightarrow> go_error + 'c App" where
  "AppLookup pkg ctx0 name options0 =
     (let options =
            (case options0 of
               None \<Rightarrow> \<lparr>Environment = [], CreateIfMissing = False\<rparr>
             | Some opts \<Rightarrow> opts)
      in case clientContext pkg ctx0 of
           Inl err \<Rightarrow> Inl err
         | Inr c \<Rightarrow>
             (case AppGetOrCreate (client pkg) c (appGetOrCreateRequest pkg name options) of
                (resp, err) \<Rightarrow>
                  (case FromError err of
                     (status, ok) \<Rightarrow>
                       if ok \<and> status = NotFound then Inl (NotFoundError (app_not_found name))
                       else (case err of
                               Some e \<Rightarrow> Inl e
                             | None \<Rightarrow> Inr \<lparr>App.AppId = GetAppId resp, App.ctx = c\<rparr>))))"

section \<open>\<open>CreateSandbox\<close>\<close>

text \<open>
  The \<open>pb.Sandbox\<close> that \<open>CreateSandbox\<close> builds, from the image (\<open>img\<close> here), the
  options (after the \<open>nil\<close> check) and the volume mounts collected by the first loop.
\<close>

definition sandboxDefinition ::
  "(float64_value \<Rightarrow> uint32) \<Rightarrow> Image \<Rightarrow> SandboxOptions \<Rightarrow> VolumeMount list \<Rightarrow> pb_Sandbox" where
  "sandboxDefinition unrepresentable img options mounts =
     \<lparr>EntrypointArgs = Command options,
      ImageId = Image.ImageId img,
      TimeoutSecs = uint32_float64 unrepresentable (Seconds (Timeout options)),
      NetworkAccess = \<lparr>NetworkAccessType = OPEN\<rparr>,
      Resources =
        \<lparr>MilliCpu =
           uint32_float64 unrepresentable (fmul (Finite 1000) (Float64frombits (CPU options))),
         MemoryMb = uint32_int (Memory options)\<rparr>,
      VolumeMounts = mounts,
      OpenPorts =
        portSpecs (openPorts (EncryptedPorts options) (H2Ports options) (UnencryptedPorts options))\<rparr>"

text \<open>
  The context and the request with which \<open>CreateSandbox\<close> calls \<open>client.SandboxCreate\<close>,
  or the panic that comes first: on a \<open>nil\<close> volume, a \<open>nil\<close> receiver or a \<open>nil\<close> image.
\<close>

definition sandboxCreateRequest ::
  "(float64_value \<Rightarrow> uint32) \<Rightarrow> 'c App option \<Rightarrow> Image option \<Rightarrow> SandboxOptions option
     \<Rightarrow> failure + 'c \<times> SandboxCreateRequest" where
  "sandboxCreateRequest unrepresentable app img options0 =
     (let options =
            (case options0 of
               None \<Rightarrow>
                 \<lparr>CPU = 0, Memory = 0, Timeout = 0, Command = [], Volumes = None,
                  EncryptedPorts = [], H2Ports = [], UnencryptedPorts = []\<rparr>
             | Some opts \<Rightarrow> opts)
      in case volumeMounts (Volumes options) of
           Inl f \<Rightarrow> Inl f
         | Inr mounts \<Rightarrow>
             (case app of
                None \<Rightarrow> Inl NilDereference
              | Some a \<Rightarrow>
                  (case img of
                     None \<Rightarrow> Inl NilDereference
                   | Some i \<Rightarrow>
                       Inr (App.ctx a,
                            \<lparr>SandboxCreateRequest.AppId = App.AppId a,
                             Definition =
                               sandboxDefinition unrepresentable i options mounts\<rparr>))))"

definition CreateSandbox ::
  "(float64_value \<Rightarrow> uint32) \<Rightarrow> 'c package \<Rightarrow> 'c App option \<Rightarrow> Image option
     \<Rightarrow> SandboxOptions option \<Rightarrow> failure + 'c Sandbox" where
  "CreateSandbox unrepresentable pkg app img options =
     (case sandboxCreateRequest unrepresentable app img options of
        Inl f \<Rightarrow> Inl f
      | Inr (c, request) \<Rightarrow>
          (case SandboxCreate (client pkg) c request of
             (createResp, Some err) \<Rightarrow> Inl (Error err)
           | (createResp, None) \<Rightarrow> Inr (newSandbox c (GetSandboxId createResp))))"

section \<open>Images\<close>

definition ImageFromRegistry ::
  "'c package \<Rightarrow> 'c App option \<Rightarrow> string \<Rightarrow> ImageFromRegistryOptions option
     \<Rightarrow> failure + Image" where
  "ImageFromRegistry pkg app tag options0 =
     (let options = (case options0 of None \<Rightarrow> \<lparr>Secret = None\<rparr> | Some opts \<Rightarrow> opts);
          imageRegistryConfig =
            (case Secret options of
               None \<Rightarrow> None
             | Some secret \<Rightarrow>
                 Some \<lparr>RegistryAuthType = REGISTRY_AUTH_TYPE_STATIC_CREDS,
                       SecretId = Secret.SecretId secret\<rparr>)
      in fromRegistryInternal pkg app tag imageRegistryConfig)"

definition ImageFromAwsEcr ::
  "'c package \<Rightarrow> 'c App option \<Rightarrow> string \<Rightarrow> Secret option \<Rightarrow> failure + Image" where
  "ImageFromAwsEcr pkg app tag secret =
     (case secret of
        None \<Rightarrow> Inl NilDereference
      | Some s \<Rightarrow>
          fromRegistryInternal pkg app tag
            (Some \<lparr>RegistryAuthType = REGISTRY_AUTH_TYPE_AWS, SecretId = Secret.SecretId s\<rparr>))"

definition ImageFromGcpArtifactRegistry ::
  "'c package \<Rightarrow> 'c App option \<Rightarrow> string \<Rightarrow> Secret option \<Rightarrow> failure + Image" where
  "ImageFromGcpArtifactRegistry pkg app tag secret =
     (case secret of
        None \<Rightarrow> Inl NilDereference
      | Some s \<Rightarrow>
          fromRegistryInternal pkg app tag
            (Some \<lparr>RegistryAuthType = REGISTRY_AUTH_TYPE_GCP, SecretId = Secret.SecretId s\<rparr>))"

section \<open>Properties of the port classification\<close>

lemma appendEncryptedPorts_map:
  "appendEncryptedPorts acc ps =
     acc @ map (\<lambda>port. \<lparr>Port = uint32_int port, Unencrypted = False, TunnelType = None\<rparr>) ps"
  by (induction ps arbitrary: acc) simp_all

lemma appendH2Ports_map:
  "appendH2Ports acc ps =
     acc @ map (\<lambda>port. \<lparr>Port = uint32_int port, Unencrypted = False,
                          TunnelType = Some TUNNEL_TYPE_H2\<rparr>) ps"
  by (induction ps arbitrary: acc) simp_all

lemma appendUnencryptedPorts_map:
  "appendUnencryptedPorts acc ps =
     acc @ map (\<lambda>port. \<lparr>Port = uint32_int port, Unencrypted = True, TunnelType = None\<rparr>) ps"
  by (induction ps arbitrary: acc) simp_all

lemma uint32_int_mod: "uint (uint32_int p) = sint p mod 2 ^ 32"
proof -
  have "uint (ucast p :: 32 word) = take_bit 32 (uint p)"
    by (simp add: unsigned_ucast_eq)
  also have "uint p = take_bit 64 (sint p)"
    by (simp add: uint_sint)
  also have "take_bit 32 (take_bit 64 (sint p)) = take_bit 32 (sint p)"
    by (simp only: take_bit_take_bit)
  also have "\<dots> = sint p mod 2 ^ 32"
    by (simp only: take_bit_eq_mod)
  finally show ?thesis
    by (simp add: uint32_int_def)
qed

lemma openPorts_maps:
  "openPorts encrypted h2 unencrypted =
     map (\<lambda>port. \<lparr>Port = uint32_int port, Unencrypted = False, TunnelType = None\<rparr>) encrypted @
     map (\<lambda>port. \<lparr>Port = uint32_int port, Unencrypted = False,
                    TunnelType = Some TUNNEL_TYPE_H2\<rparr>) h2 @
     map (\<lambda>port. \<lparr>Port = uint32_int port, Unencrypted = True, TunnelType = None\<rparr>) unencrypted"
  by (simp add: openPorts_def appendEncryptedPorts_map appendH2Ports_map
      appendUnencryptedPorts_map)

text \<open>
  C1.  For every three port lists, \<open>openPorts\<close> is one sequence in three segments: a spec
  for every encrypted port in input order (tunnel type unset, not unencrypted), then one
  for every H2 port in input order (tunnel type H2, not unencrypted), then one for every
  unencrypted port in input order (unencrypted, tunnel type unset).
\<close>

theorem CreateSandbox_port_order:
  "openPorts encrypted h2 unencrypted =
     map (\<lambda>port. \<lparr>Port = uint32_int port, Unencrypted = False, TunnelType = None\<rparr>) encrypted @
     map (\<lambda>port. \<lparr>Port = uint32_int port, Unencrypted = False,
                    TunnelType = Some TUNNEL_TYPE_H2\<rparr>) h2 @
     map (\<lambda>port. \<lparr>Port = uint32_int port, Unencrypted = True, TunnelType = None\<rparr>) unencrypted"
  by (rule openPorts_maps)

text \<open>The example of the specification: \<open>encrypted = [1, 2]\<close>, \<open>h2 = [3]\<close>, \<open>unencrypted = [4]\<close>.\<close>

lemma openPorts_example:
  "openPorts [1, 2] [3] [4] =
     [\<lparr>Port = 1, Unencrypted = False, TunnelType = None\<rparr>,
      \<lparr>Port = 2, Unencrypted = False, TunnelType = None\<rparr>,
      \<lparr>Port = 3, Unencrypted = False, TunnelType = Some TUNNEL_TYPE_H2\<rparr>,
      \<lparr>Port = 4, Unencrypted = True, TunnelType = None\<rparr>]"
  by (simp add: openPorts_def uint32_int_def)

lemma openPorts_Nil_iff:
  "openPorts encrypted h2 unencrypted = [] \<longleftrightarrow> encrypted = [] \<and> h2 = [] \<and> unencrypted = []"
  by (simp add: openPorts_maps)

text \<open>
  C2.  The port field of the compiled definition is absent exactly when all three lists
  are empty; otherwise it is present and holds the classified ports.
\<close>

theorem CreateSandbox_open_ports_absent:
  "OpenPorts (sandboxDefinition unrepresentable img options mounts) =
     (if EncryptedPorts options = [] \<and> H2Ports options = [] \<and> UnencryptedPorts options = []
      then None
      else Some \<lparr>Ports = openPorts (EncryptedPorts options) (H2Ports options)
                            (UnencryptedPorts options)\<rparr>)"
  by (simp add: sandboxDefinition_def portSpecs_def openPorts_Nil_iff)

section \<open>Properties of the volume mounts\<close>

lemma appendVolumeMounts_map:
  "appendVolumeMounts acc (map (\<lambda>(mountPath, volume). (mountPath, Some volume)) entries) =
     Inr (acc @ map (\<lambda>(mountPath, volume).
                      \<lparr>VolumeId = Volume.VolumeId volume, MountPath = mountPath,
                       AllowBackgroundCommits = True, ReadOnly = False\<rparr>) entries)"
  by (induction entries arbitrary: acc) (simp_all add: case_prod_beta)

lemma appendVolumeMounts_nil_volume:
  "(mountPath, None) \<in> set entries \<Longrightarrow> appendVolumeMounts acc entries = Inl NilDereference"
  by (induction entries arbitrary: acc) (auto split: option.splits)

lemma volumeMounts_entries:
  "volumeMounts (Some (map (\<lambda>(mountPath, volume). (mountPath, Some volume)) entries)) =
     Inr (map (\<lambda>(mountPath, volume).
                 \<lparr>VolumeId = Volume.VolumeId volume, MountPath = mountPath,
                  AllowBackgroundCommits = True, ReadOnly = False\<rparr>) entries)"
  using appendVolumeMounts_map [of "[]" entries] by (simp add: volumeMounts_def)

lemma sandboxCreateRequest_Some:
  "sandboxCreateRequest unrepresentable (Some app) (Some img) (Some options) =
     (case volumeMounts (Volumes options) of
        Inl f \<Rightarrow> Inl f
      | Inr mounts \<Rightarrow>
          Inr (App.ctx app,
               \<lparr>SandboxCreateRequest.AppId = App.AppId app,
                Definition = sandboxDefinition unrepresentable img options mounts\<rparr>))"
  by (simp add: sandboxCreateRequest_def split: sum.splits)

lemma VolumeMounts_sandboxDefinition:
  "VolumeMounts (sandboxDefinition unrepresentable img options mounts) = mounts"
  by (simp add: sandboxDefinition_def)

text \<open>An entry whose volume is \<open>nil\<close> makes the loop panic.\<close>

lemma volumeMounts_nil_volume:
  "(mountPath, None) \<in> set entries \<Longrightarrow> volumeMounts (Some entries) = Inl NilDereference"
  by (simp add: volumeMounts_def appendVolumeMounts_nil_volume)

text \<open>
  C7 fails as stated: the values of the mapping are pointers, and for a mapping with a
  \<open>nil\<close> volume \<open>CreateSandbox\<close> panics on \<open>volume.VolumeId\<close>; no definition is compiled
  and no request is made.
\<close>

theorem CreateSandbox_nil_volume_counterexample:
  "sandboxCreateRequest (\<lambda>v. 0) (Some \<lparr>App.AppId = ''ap-1'', App.ctx = ()\<rparr>)
     (Some \<lparr>Image.ImageId = ''im-1''\<rparr>)
     (Some \<lparr>CPU = 0, Memory = 0, Timeout = 0, Command = [],
            Volumes = Some [(''/data'', None)],
            EncryptedPorts = [], H2Ports = [], UnencryptedPorts = []\<rparr>) =
     Inl NilDereference
   \<and> CreateSandbox (\<lambda>v. 0)
     \<lparr>client =
        \<lparr>AppGetOrCreate = (\<lambda>c request. (None, None)),
         SandboxCreate =
           (\<lambda>c request. (Some \<lparr>SandboxCreateResponse.SandboxId = ''sb-1''\<rparr>, None))\<rparr>,
      clientContext = Inr,
      environmentName = (\<lambda>name. name),
      fromRegistryInternal = (\<lambda>app tag config. Inl NilDereference)\<rparr>
     (Some \<lparr>App.AppId = ''ap-1'', App.ctx = ()\<rparr>)
     (Some \<lparr>Image.ImageId = ''im-1''\<rparr>)
     (Some \<lparr>CPU = 0, Memory = 0, Timeout = 0, Command = [],
            Volumes = Some [(''/data'', None)],
            EncryptedPorts = [], H2Ports = [], UnencryptedPorts = []\<rparr>) =
     Inl NilDereference"
  by (simp add: CreateSandbox_def sandboxCreateRequest_def volumeMounts_def)

text \<open>
  C7, as amended.  When every entry of the mapping holds a volume, the request carries one
  \<open>VolumeMount\<close> per entry, in the order of the loop, with that entry's mount path and
  volume identifier, \<open>AllowBackgroundCommits\<close> set and \<open>ReadOnly\<close> clear.
\<close>

theorem CreateSandbox_volume_mounts:
  assumes "Volumes options =
             Some (map (\<lambda>(mountPath, volume). (mountPath, Some volume)) entries)"
  shows "map_sum id (\<lambda>(c, request). VolumeMounts (Definition request))
           (sandboxCreateRequest unrepresentable (Some app) (Some img) (Some options)) =
         Inr (map (\<lambda>(mountPath, volume).
                     \<lparr>VolumeId = Volume.VolumeId volume, MountPath = mountPath,
                      AllowBackgroundCommits = True, ReadOnly = False\<rparr>) entries)"
  using assms
  by (simp add: sandboxCreateRequest_Some volumeMounts_entries VolumeMounts_sandboxDefinition)

theorem CreateSandbox_volume_mounts_witness:
  "Volumes
     \<lparr>CPU = 0, Memory = 0, Timeout = 0, Command = [],
      Volumes = Some [(''/data'', Some \<lparr>Volume.VolumeId = ''vo-1''\<rparr>),
                      (''/logs'', Some \<lparr>Volume.VolumeId = ''vo-2''\<rparr>)],
      EncryptedPorts = [], H2Ports = [], UnencryptedPorts = []\<rparr> =
     Some (map (\<lambda>(mountPath, volume). (mountPath, Some volume))
             [(''/data'', \<lparr>Volume.VolumeId = ''vo-1''\<rparr>),
              (''/logs'', \<lparr>Volume.VolumeId = ''vo-2''\<rparr>)])
   \<and> map_sum id (\<lambda>(c, request). VolumeMounts (Definition request))
       (sandboxCreateRequest (\<lambda>v. 0) (Some \<lparr>App.AppId = ''ap-1'', App.ctx = ()\<rparr>)
          (Some \<lparr>Image.ImageId = ''im-1''\<rparr>)
          (Some \<lparr>CPU = 0, Memory = 0, Timeout = 0, Command = [],
                 Volumes = Some [(''/data'', Some \<lparr>Volume.VolumeId = ''vo-1''\<rparr>),
                                 (''/logs'', Some \<lparr>Volume.VolumeId = ''vo-2''\<rparr>)],
                 EncryptedPorts = [], H2Ports = [], UnencryptedPorts = []\<rparr>)) =
     Inr [\<lparr>VolumeId = ''vo-1'', MountPath = ''/data'',
           AllowBackgroundCommits = True, ReadOnly = False\<rparr>,
          \<lparr>VolumeId = ''vo-2'', MountPath = ''/logs'',
           AllowBackgroundCommits = True, ReadOnly = False\<rparr>]"
proof -
  let ?options =
    "\<lparr>CPU = 0, Memory = 0, Timeout = 0, Command = [],
      Volumes = Some [(''/data'', Some \<lparr>Volume.VolumeId = ''vo-1''\<rparr>),
                      (''/logs'', Some \<lparr>Volume.VolumeId = ''vo-2''\<rparr>)],
      EncryptedPorts = [], H2Ports = [], UnencryptedPorts = []\<rparr>"
  have h: "Volumes ?options =
     Some (map (\<lambda>(mountPath, volume). (mountPath, Some volume))
             [(''/data'', \<lparr>Volume.VolumeId = ''vo-1''\<rparr>),
              (''/logs'', \<lparr>Volume.VolumeId = ''vo-2''\<rparr>)])"
    by simp
  show ?thesis
    using h CreateSandbox_volume_mounts [OF h, of "\<lambda>v. 0" "\<lparr>App.AppId = ''ap-1'', App.ctx = ()\<rparr>"
        "\<lparr>Image.ImageId = ''im-1''\<rparr>"]
    by simp
qed

section \<open>No validation of ports and memory\<close>

text \<open>
  C10.  Every port reaches its \<open>PortSpec\<close> reduced modulo \<open>2\<^sup>3\<^sup>2\<close>, and so does the memory
  request; neither is ever a reason to refuse the request, which is built whenever the
  volume loop does not panic.
\<close>

theorem CreateSandbox_no_range_check:
  "map (\<lambda>spec. uint (Port spec)) (openPorts encrypted h2 unencrypted) =
     map (\<lambda>port. sint port mod 2 ^ 32) (encrypted @ h2 @ unencrypted)
   \<and> uint (MemoryMb (Resources (sandboxDefinition unrepresentable img options mounts))) =
       sint (Memory options) mod 2 ^ 32
   \<and> sandboxCreateRequest unrepresentable (Some app) (Some img) (Some options) =
       (case volumeMounts (Volumes options) of
          Inl f \<Rightarrow> Inl f
        | Inr mounts \<Rightarrow>
            Inr (App.ctx app,
                 \<lparr>SandboxCreateRequest.AppId = App.AppId app,
                  Definition = sandboxDefinition unrepresentable img options mounts\<rparr>))"
  by (simp add: openPorts_maps uint32_int_mod sandboxCreateRequest_Some o_def)
     (simp add: sandboxDefinition_def uint32_int_mod)

text \<open>A negative port and a port beyond 32 bits wrap around.\<close>

lemma openPorts_negative_port:
  "map (\<lambda>spec. uint (Port spec)) (openPorts [- 1] [] [65536 * 65536 + 80]) = [4294967295, 80]"
  by (simp add: openPorts_maps uint32_int_mod)

section \<open>Properties of the image constructors\<close>

text \<open>
  C8.  \<open>ImageFromAwsEcr\<close> and \<open>ImageFromGcpArtifactRegistry\<close> pass on a configuration with
  the secret's identifier and the AWS, respectively GCP, auth type; \<open>ImageFromRegistry\<close>
  passes on no configuration when the options or their secret are \<open>nil\<close>, and the
  static-credentials auth type with the secret's identifier otherwise.
\<close>

theorem Image_registry_auth:
  "ImageFromAwsEcr pkg app tag (Some secret) =
     fromRegistryInternal pkg app tag
       (Some \<lparr>RegistryAuthType = REGISTRY_AUTH_TYPE_AWS, SecretId = Secret.SecretId secret\<rparr>)
   \<and> ImageFromGcpArtifactRegistry pkg app tag (Some secret) =
     fromRegistryInternal pkg app tag
       (Some \<lparr>RegistryAuthType = REGISTRY_AUTH_TYPE_GCP, SecretId = Secret.SecretId secret\<rparr>)
   \<and> ImageFromRegistry pkg app tag None = fromRegistryInternal pkg app tag None
   \<and> ImageFromRegistry pkg app tag (Some \<lparr>Secret = None\<rparr>) =
     fromRegistryInternal pkg app tag None
   \<and> ImageFromRegistry pkg app tag (Some \<lparr>Secret = Some secret\<rparr>) =
     fromRegistryInternal pkg app tag
       (Some \<lparr>RegistryAuthType = REGISTRY_AUTH_TYPE_STATIC_CREDS,
              SecretId = Secret.SecretId secret\<rparr>)"
  by (simp add: ImageFromAwsEcr_def ImageFromGcpArtifactRegistry_def ImageFromRegistry_def)

text \<open>
  C9 fails as stated: the secret is a pointer, the call with \<open>nil\<close> is well-typed, and it
  panics.
\<close>

theorem Image_registry_nil_secret_counterexample:
  "ImageFromAwsEcr
     \<lparr>client =
        \<lparr>AppGetOrCreate = (\<lambda>c request. (None, None)),
         SandboxCreate = (\<lambda>c request. (None, None))\<rparr>,
      clientContext = Inr,
      environmentName = (\<lambda>name. name),
      fromRegistryInternal = (\<lambda>app tag config. Inr \<lparr>Image.ImageId = ''im-1''\<rparr>)\<rparr>
     (Some \<lparr>App.AppId = ''ap-1'', App.ctx = ()\<rparr>) ''repo:tag'' None =
   Inl NilDereference"
  by (simp add: ImageFromAwsEcr_def)

text \<open>
  C9, as amended.  The secret of \<open>ImageFromAwsEcr\<close> and \<open>ImageFromGcpArtifactRegistry\<close> is a
  required argument, but a pointer: called with \<open>nil\<close> both panic on \<open>secret.SecretId\<close>
  before anything is requested; called with a secret, both hand the request on with that
  secret's identifier, and nothing fails on account of the secret.
\<close>

theorem Image_registry_required_secret:
  "ImageFromAwsEcr pkg app tag None = Inl NilDereference
   \<and> ImageFromGcpArtifactRegistry pkg app tag None = Inl NilDereference
   \<and> ImageFromAwsEcr pkg app tag (Some secret) =
     fromRegistryInternal pkg app tag
       (Some \<lparr>RegistryAuthType = REGISTRY_AUTH_TYPE_AWS, SecretId = Secret.SecretId secret\<rparr>)
   \<and> ImageFromGcpArtifactRegistry pkg app tag (Some secret) =
     fromRegistryInternal pkg app tag
       (Some \<lparr>RegistryAuthType = REGISTRY_AUTH_TYPE_GCP, SecretId = Secret.SecretId secret\<rparr>)"
  by (simp add: ImageFromAwsEcr_def ImageFromGcpArtifactRegistry_def)

section \<open>Properties of \<open>AppLookup\<close>\<close>

lemma sublist_app_not_found: "sublist name (app_not_found name)"
proof -
  have "app_not_found name = (''app '' @ [CHR 0x27]) @ name @ ([CHR 0x27] @ '' not found'')"
    by (simp add: app_not_found_def)
  then show ?thesis
    by (simp only: sublist_appendI)
qed

lemma AppLookup_rpc:
  assumes "clientContext pkg ctx0 = Inr c"
    and "AppGetOrCreate (client pkg) c
           (appGetOrCreateRequest pkg name
              (case options of
                 None \<Rightarrow> \<lparr>Environment = [], CreateIfMissing = False\<rparr>
               | Some opts \<Rightarrow> opts)) = (resp, err)"
  shows "AppLookup pkg ctx0 name options =
           (case err of
              None \<Rightarrow> Inr \<lparr>App.AppId = GetAppId resp, App.ctx = c\<rparr>
            | Some (StatusError code m) \<Rightarrow>
                if code = NotFound then Inl (NotFoundError (app_not_found name))
                else Inl (StatusError code m)
            | Some e \<Rightarrow> Inl e)"
  using assms
  by (cases err; cases options)
     (auto simp add: AppLookup_def Let_def split: go_error.splits)

text \<open>
  C3.  When the client context is obtained: a lookup without \<open>CreateIfMissing\<close> that the
  transport answers with a \<open>NotFound\<close> status returns a \<open>NotFoundError\<close> whose message
  contains the name; a lookup with \<open>CreateIfMissing\<close> that the transport answers with a
  response and no error returns the App with the response's identifier.
\<close>

theorem AppLookup_not_found_and_created:
  assumes "clientContext pkg ctx0 = Inr c"
  shows "(AppGetOrCreate (client pkg) c
            \<lparr>AppName = name, EnvironmentName = environmentName pkg env,
             ObjectCreationType = OBJECT_CREATION_TYPE_UNSPECIFIED\<rparr> =
            (resp, Some (StatusError NotFound m)) \<longrightarrow>
          AppLookup pkg ctx0 name (Some \<lparr>Environment = env, CreateIfMissing = False\<rparr>) =
            Inl (NotFoundError (app_not_found name)) \<and>
          sublist name (app_not_found name))
       \<and> (AppGetOrCreate (client pkg) c
            \<lparr>AppName = name, EnvironmentName = environmentName pkg env,
             ObjectCreationType = OBJECT_CREATION_TYPE_CREATE_IF_MISSING\<rparr> =
            (Some created, None) \<longrightarrow>
          AppLookup pkg ctx0 name (Some \<lparr>Environment = env, CreateIfMissing = True\<rparr>) =
            Inr \<lparr>App.AppId = AppGetOrCreateResponse.AppId created, App.ctx = c\<rparr>)"
proof (intro conjI impI)
  assume "AppGetOrCreate (client pkg) c
            \<lparr>AppName = name, EnvironmentName = environmentName pkg env,
             ObjectCreationType = OBJECT_CREATION_TYPE_UNSPECIFIED\<rparr> =
            (resp, Some (StatusError NotFound m))"
  then show "AppLookup pkg ctx0 name (Some \<lparr>Environment = env, CreateIfMissing = False\<rparr>) =
            Inl (NotFoundError (app_not_found name))"
    using AppLookup_rpc [OF assms, of name "Some \<lparr>Environment = env, CreateIfMissing = False\<rparr>"
        resp "Some (StatusError NotFound m)"]
    by (simp add: appGetOrCreateRequest_def)
next
  assume "AppGetOrCreate (client pkg) c
            \<lparr>AppName = name, EnvironmentName = environmentName pkg env,
             ObjectCreationType = OBJECT_CREATION_TYPE_CREATE_IF_MISSING\<rparr> =
            (Some created, None)"
  then show "AppLookup pkg ctx0 name (Some \<lparr>Environment = env, CreateIfMissing = True\<rparr>) =
            Inr \<lparr>App.AppId = AppGetOrCreateResponse.AppId created, App.ctx = c\<rparr>"
    using AppLookup_rpc [OF assms, of name "Some \<lparr>Environment = env, CreateIfMissing = True\<rparr>"
        "Some created" None]
    by (simp add: appGetOrCreateRequest_def GetAppId_def)
qed (rule sublist_app_not_found)

theorem AppLookup_not_found_and_created_witness:
  "clientContext
     \<lparr>client =
        \<lparr>AppGetOrCreate =
           (\<lambda>c request.
              if ObjectCreationType request = OBJECT_CREATION_TYPE_CREATE_IF_MISSING
              then (Some \<lparr>AppGetOrCreateResponse.AppId = ''ap-1''\<rparr>, None)
              else (None, Some (StatusError NotFound ''no such app''))),
         SandboxCreate = (\<lambda>c request. (None, None))\<rparr>,
      clientContext = Inr,
      environmentName = (\<lambda>name. name),
      fromRegistryInternal = (\<lambda>app tag config. Inl NilDereference)\<rparr> () = Inr ()
   \<and> AppLookup
     \<lparr>client =
        \<lparr>AppGetOrCreate =
           (\<lambda>c request.
              if ObjectCreationType request = OBJECT_CREATION_TYPE_CREATE_IF_MISSING
              then (Some \<lparr>AppGetOrCreateResponse.AppId = ''ap-1''\<rparr>, None)
              else (None, Some (StatusError NotFound ''no such app''))),
         SandboxCreate = (\<lambda>c request. (None, None))\<rparr>,
      clientContext = Inr,
      environmentName = (\<lambda>name. name),
      fromRegistryInternal = (\<lambda>app tag config. Inl NilDereference)\<rparr>
     () ''demo'' (Some \<lparr>Environment = ''main'', CreateIfMissing = False\<rparr>) =
     Inl (NotFoundError (''app '' @ [CHR 0x27] @ ''demo'' @ [CHR 0x27] @ '' not found''))
   \<and> AppLookup
     \<lparr>client =
        \<lparr>AppGetOrCreate =
           (\<lambda>c request.
              if ObjectCreationType request = OBJECT_CREATION_TYPE_CREATE_IF_MISSING
              then (Some \<lparr>AppGetOrCreateResponse.AppId = ''ap-1''\<rparr>, None)
              else (None, Some (StatusError NotFound ''no such app''))),
         SandboxCreate = (\<lambda>c request. (None, None))\<rparr>,
      clientContext = Inr,
      environmentName = (\<lambda>name. name),
      fromRegistryInternal = (\<lambda>app tag config. Inl NilDereference)\<rparr>
     () ''demo'' (Some \<lparr>Environment = ''main'', CreateIfMissing = True\<rparr>) =
     Inr \<lparr>App.AppId = ''ap-1'', App.ctx = ()\<rparr>"
proof -
  let ?pkg =
    "\<lparr>client =
        \<lparr>AppGetOrCreate =
           (\<lambda>c request.
              if ObjectCreationType request = OBJECT_CREATION_TYPE_CREATE_IF_MISSING
              then (Some \<lparr>AppGetOrCreateResponse.AppId = ''ap-1''\<rparr>, None)
              else (None, Some (StatusError NotFound ''no such app''))),
         SandboxCreate = (\<lambda>c request. (None, None))\<rparr>,
      clientContext = Inr,
      environmentName = (\<lambda>name. name),
      fromRegistryInternal = (\<lambda>app tag config. Inl NilDereference)\<rparr>
     :: unit package"
  have h: "clientContext ?pkg () = Inr ()"
    by simp
  show ?thesis
    using h AppLookup_not_found_and_created [OF h, of "''demo''" "''main''" None "''no such app''"
        "\<lparr>AppGetOrCreateResponse.AppId = ''ap-1''\<rparr>"]
    by (simp add: app_not_found_def)
qed

text \<open>
  C4 fails as stated: the translation does not look at \<open>CreateIfMissing\<close>.  A \<open>NotFound\<close>
  status that answers a lookup with \<open>CreateIfMissing\<close> set is translated all the same.
\<close>

theorem AppLookup_create_not_found_counterexample:
  "AppLookup
     \<lparr>client =
        \<lparr>AppGetOrCreate =
           (\<lambda>c request. (None, Some (StatusError NotFound ''environment not found''))),
         SandboxCreate = (\<lambda>c request. (None, None))\<rparr>,
      clientContext = Inr,
      environmentName = (\<lambda>name. name),
      fromRegistryInternal = (\<lambda>app tag config. Inl NilDereference)\<rparr>
     () ''demo'' (Some \<lparr>Environment = ''dev'', CreateIfMissing = True\<rparr>) =
   Inl (NotFoundError (''app '' @ [CHR 0x27] @ ''demo'' @ [CHR 0x27] @ '' not found''))"
  by (simp add: AppLookup_def app_not_found_def)

text \<open>
  C4, as amended.  Of the errors that \<open>AppGetOrCreate\<close> returns, exactly those carrying a
  \<open>NotFound\<close> status become a \<open>NotFoundError\<close>, whether or not creation was requested;
  every other error is returned as it is.
\<close>

theorem AppLookup_error_translation:
  assumes "clientContext pkg ctx0 = Inr c"
    and "AppGetOrCreate (client pkg) c (appGetOrCreateRequest pkg name options) = (resp, Some e)"
  shows "AppLookup pkg ctx0 name (Some options) =
           (if \<exists>m. e = StatusError NotFound m
            then Inl (NotFoundError (app_not_found name))
            else Inl e)"
  using AppLookup_rpc [OF assms(1), of name "Some options" resp "Some e"] assms(2)
  by (cases e) auto

theorem AppLookup_error_translation_witness:
  "clientContext
     \<lparr>client =
        \<lparr>AppGetOrCreate =
           (\<lambda>c request. (None, Some (StatusError PermissionDenied ''denied''))),
         SandboxCreate = (\<lambda>c request. (None, None))\<rparr>,
      clientContext = Inr,
      environmentName = (\<lambda>name. name),
      fromRegistryInternal = (\<lambda>app tag config. Inl NilDereference)\<rparr> () = Inr ()
   \<and> AppLookup
     \<lparr>client =
        \<lparr>AppGetOrCreate =
           (\<lambda>c request. (None, Some (StatusError PermissionDenied ''denied''))),
         SandboxCreate = (\<lambda>c request. (None, None))\<rparr>,
      clientContext = Inr,
      environmentName = (\<lambda>name. name),
      fromRegistryInternal = (\<lambda>app tag config. Inl NilDereference)\<rparr>
     () ''demo'' (Some \<lparr>Environment = ''main'', CreateIfMissing = False\<rparr>) =
     Inl (StatusError PermissionDenied ''denied'')"
proof -
  let ?pkg =
    "\<lparr>client =
        \<lparr>AppGetOrCreate =
           (\<lambda>c request. (None, Some (StatusError PermissionDenied ''denied''))),
         SandboxCreate = (\<lambda>c request. (None, None))\<rparr>,
      clientContext = Inr,
      environmentName = (\<lambda>name. name),
      fromRegistryInternal = (\<lambda>app tag config. Inl NilDereference)\<rparr>
     :: unit package"
  have h: "clientContext ?pkg () = Inr ()"
    by simp
  have r: "AppGetOrCreate (client ?pkg) ()
             (appGetOrCreateRequest ?pkg ''demo'' \<lparr>Environment = ''main'', CreateIfMissing = False\<rparr>) =
           (None, Some (StatusError PermissionDenied ''denied''))"
    by simp
  show ?thesis
    using h AppLookup_error_translation [OF h r]
    by simp
qed

text \<open>An error of \<open>clientContext\<close> is returned as it is, before any call.\<close>

lemma AppLookup_clientContext_error:
  "clientContext pkg ctx0 = Inl e \<Longrightarrow> AppLookup pkg ctx0 name options = Inl e"
  by (simp add: AppLookup_def Let_def)

section \<open>Properties of the rounding\<close>

text \<open>\<open>ilog2\<close> finds the binade of a positive rational.\<close>

lemma bitlen_powi_bounds:
  assumes "0 < n"
  shows "(2::rat) powi (bitlen n - 1) \<le> of_int n" and "of_int n < (2::rat) powi bitlen n"
proof -
  from assms have b: "1 \<le> bitlen n"
    by (simp add: bitlen_alt_def)
  from bitlen_bounds [OF assms]
  have l: "2 ^ nat (bitlen n - 1) \<le> n" and u: "n < 2 ^ nat (bitlen n)"
    by simp_all
  have "(of_int (2 ^ nat (bitlen n - 1)) :: rat) \<le> of_int n"
    using l by (simp only: of_int_le_iff)
  then show "(2::rat) powi (bitlen n - 1) \<le> of_int n"
    using b by (simp add: power_int_def)
  have "(of_int n :: rat) < of_int (2 ^ nat (bitlen n))"
    using u by (simp only: of_int_less_iff)
  then show "of_int n < (2::rat) powi bitlen n"
    using b by (simp add: power_int_def)
qed

lemma ilog2_bounds:
  assumes "0 < a"
  shows "2 powi ilog2 a \<le> a" and "a < 2 powi (ilog2 a + 1)"
proof -
  obtain n d where q: "quotient_of a = (n, d)"
    by (cases "quotient_of a")
  then have d: "0 < d" and a: "a = of_int n / of_int d"
    by (simp_all add: quotient_of_denom_pos quotient_of_div)
  with assms have n: "0 < n"
    by (simp add: zero_less_divide_iff)
  define k where "k = bitlen n - bitlen d"
  have dpos: "(0::rat) < of_int d"
    using d by simp
  have "a * 2 powi bitlen d > of_int n"
  proof -
    have "of_int n = a * of_int d"
      using a dpos by simp
    also have "\<dots> < a * 2 powi bitlen d"
      using bitlen_powi_bounds(2) [OF d] assms by simp
    finally show ?thesis .
  qed
  then have "a * 2 powi bitlen d > 2 powi (bitlen n - 1)"
    using bitlen_powi_bounds(1) [OF n] by simp
  moreover have "2 powi (k - 1) * 2 powi bitlen d = (2 powi (bitlen n - 1) :: rat)"
    by (simp add: k_def power_int_diff)
  ultimately have "2 powi (k - 1) * 2 powi bitlen d < a * 2 powi bitlen d"
    by simp
  then have lo: "2 powi (k - 1) < a"
    by (simp only: mult_less_cancel_right_pos zero_less_power_int zero_less_numeral)
  have "a * 2 powi (bitlen d - 1) \<le> of_int n"
  proof -
    have "a * 2 powi (bitlen d - 1) \<le> a * of_int d"
      using bitlen_powi_bounds(1) [OF d] assms by simp
    also have "\<dots> = of_int n"
      using a dpos by simp
    finally show ?thesis .
  qed
  then have "a * 2 powi (bitlen d - 1) < 2 powi bitlen n"
    using bitlen_powi_bounds(2) [OF n] by simp
  moreover have "2 powi (k + 1) * 2 powi (bitlen d - 1) = (2 powi bitlen n :: rat)"
    by (simp add: k_def power_int_diff power_int_add)
  ultimately have "a * 2 powi (bitlen d - 1) < 2 powi (k + 1) * 2 powi (bitlen d - 1)"
    by simp
  then have hi: "a < 2 powi (k + 1)"
    by (simp only: mult_less_cancel_right_pos zero_less_power_int zero_less_numeral)
  have e: "ilog2 a = (if 2 powi k \<le> a then k else k - 1)"
    by (simp add: ilog2_def q k_def Let_def)
  show "2 powi ilog2 a \<le> a"
    using lo by (simp add: e)
  show "a < 2 powi (ilog2 a + 1)"
    using hi by (auto simp add: e)
qed

text \<open>
  \<open>nearest_float64 x\<close> is at least as close to \<open>x\<close> as any number \<open>m \<sqdot> 2\<^sup>e\<close> with
  \<open>\<bar>m\<bar> < 2\<^sup>5\<^sup>3\<close> and \<open>e \<ge> -1074\<close>, that is, as any finite \<open>float64\<close>.  Hence it never crosses
  such a number, and leaves such a number unchanged.
\<close>

lemma round_half_even_nearest:
  "\<bar>of_int (round_half_even x) - x\<bar> \<le> \<bar>of_int k - x\<bar>"
proof -
  define f where "f = \<lfloor>x\<rfloor>"
  have fl: "of_int f \<le> x" "x < of_int f + 1"
    by (simp_all add: f_def) linarith
  have half: "\<bar>of_int (round_half_even x) - x\<bar> \<le> 1 / 2"
    using fl by (auto simp add: round_half_even_def Let_def f_def [symmetric])
  have cases: "round_half_even x = f \<or> round_half_even x = f + 1"
    by (auto simp add: round_half_even_def Let_def f_def [symmetric])
  consider "k \<le> f - 1" | "k = f" | "k = f + 1" | "f + 2 \<le> k"
    by linarith
  then show ?thesis
  proof cases
    case 1
    then have "(of_int k :: rat) \<le> of_int (f - 1)"
      by (simp only: of_int_le_iff)
    then have "of_int k \<le> x - 1"
      using fl by simp
    then show ?thesis
      using half by linarith
  next
    case 2
    then show ?thesis
      using fl by (auto simp add: round_half_even_def Let_def f_def [symmetric])
  next
    case 3
    then show ?thesis
      using fl by (auto simp add: round_half_even_def Let_def f_def [symmetric])
  next
    case 4
    then have "(of_int (f + 2) :: rat) \<le> of_int k"
      by (simp only: of_int_le_iff)
    then have "x + 1 \<le> of_int k"
      using fl by simp
    then show ?thesis
      using half by linarith
  qed
qed

lemma abs_scale:
  fixes g :: rat
  assumes "0 < g"
  shows "\<bar>a * g - x\<bar> = \<bar>a - x / g\<bar> * g"
proof -
  have "a * g - x = (a - x / g) * g"
    using assms by (simp add: left_diff_distrib)
  then have "\<bar>a * g - x\<bar> = \<bar>a - x / g\<bar> * \<bar>g\<bar>"
    by (simp only: abs_mult)
  then show ?thesis
    using assms by simp
qed

lemma nearest_float64_grid:
  assumes "max (ilog2 \<bar>x\<bar> - 52) (- 1074) \<le> e"
  shows "\<bar>nearest_float64 x - x\<bar> \<le> \<bar>of_int m * 2 powi e - x\<bar>"
proof -
  define p where "p = max (ilog2 \<bar>x\<bar> - 52) (- 1074)"
  define g :: rat where "g = 2 powi p"
  define k where "k = m * 2 ^ nat (e - p)"
  have g: "0 < g"
    by (simp add: g_def)
  have "(2::rat) powi e = 2 powi (e - p) * 2 powi p"
    by (simp add: power_int_diff)
  also have "(2::rat) powi (e - p) = 2 ^ nat (e - p)"
    using assms by (simp add: power_int_def p_def)
  finally have y: "of_int m * 2 powi e = of_int k * g"
    by (simp add: k_def g_def)
  have n: "nearest_float64 x = of_int (round_half_even (x / g)) * g"
    by (simp add: nearest_float64_def p_def g_def Let_def)
  have "\<bar>of_int (round_half_even (x / g)) * g - x\<bar> =
        \<bar>of_int (round_half_even (x / g)) - x / g\<bar> * g"
    using g by (rule abs_scale)
  also have "\<dots> \<le> \<bar>of_int k - x / g\<bar> * g"
    using g round_half_even_nearest [of "x / g" k] by simp
  also have "\<dots> = \<bar>of_int k * g - x\<bar>"
    using g by (rule abs_scale [symmetric])
  finally show ?thesis
    by (simp add: n y)
qed

lemma round_half_even_0: "round_half_even 0 = 0"
  by (simp add: round_half_even_def)

lemma nearest_float64_0: "nearest_float64 0 = 0"
  by (simp add: nearest_float64_def round_half_even_0)

lemma nearest_float64_nearest:
  assumes m: "\<bar>m\<bar> < 2 ^ 53" and e: "- 1074 \<le> e"
  shows "\<bar>nearest_float64 x - x\<bar> \<le> \<bar>of_int m * 2 powi e - x\<bar>"
proof (cases "max (ilog2 \<bar>x\<bar> - 52) (- 1074) \<le> e")
  case True
  then show ?thesis
    by (rule nearest_float64_grid)
next
  case False
  show ?thesis
  proof (cases "x = 0")
    case True
    then show ?thesis
      by (simp add: nearest_float64_0)
  next
    case nz: False
    define q where "q = ilog2 \<bar>x\<bar>"
    from False e have p: "max (q - 52) (- 1074) = q - 52" and ep: "e \<le> q - 53"
      by (simp_all add: q_def max_def split: if_splits)
    from nz have lo: "2 powi q \<le> \<bar>x\<bar>"
      unfolding q_def by (intro ilog2_bounds(1)) simp
    define s :: int where "s = (if 0 < x then 1 else - 1)"
    have sx: "of_int s * \<bar>x\<bar> = x" and s1: "\<bar>s\<bar> = 1"
      using nz by (simp_all add: s_def)
    have "\<bar>nearest_float64 x - x\<bar> \<le> \<bar>of_int (s * 2 ^ 52) * 2 powi (q - 52) - x\<bar>"
      by (rule nearest_float64_grid) (simp add: p q_def [symmetric])
    also have "of_int (s * 2 ^ 52) * (2::rat) powi (q - 52) = of_int s * 2 powi q"
      by (simp add: power_int_diff)
    also have "\<bar>of_int s * 2 powi q - x\<bar> = \<bar>x\<bar> - 2 powi q"
      using lo nz by (simp add: s_def abs_if split: if_splits)
    finally have a: "\<bar>nearest_float64 x - x\<bar> \<le> \<bar>x\<bar> - 2 powi q" .
    have "\<bar>of_int m * (2::rat) powi e\<bar> = of_int \<bar>m\<bar> * 2 powi e"
      by (simp add: abs_mult)
    also have "\<dots> \<le> of_int (2 ^ 53) * 2 powi e"
      using m by (intro mult_right_mono) (simp_all only: of_int_le_iff, simp_all)
    also have "\<dots> \<le> of_int (2 ^ 53) * 2 powi (q - 53)"
      using ep by (intro mult_left_mono power_int_increasing) simp_all
    also have "\<dots> = 2 powi q"
      by (simp add: power_int_diff)
    finally have "\<bar>of_int m * (2::rat) powi e\<bar> \<le> 2 powi q" .
    then have "\<bar>x\<bar> - 2 powi q \<le> \<bar>of_int m * 2 powi e - x\<bar>"
      by linarith
    with a show ?thesis
      by linarith
  qed
qed

lemma nearest_float64_ge:
  assumes "\<bar>m\<bar> < 2 ^ 53" "- 1074 \<le> e" "of_int m * 2 powi e \<le> x"
  shows "of_int m * 2 powi e \<le> nearest_float64 x"
  using nearest_float64_nearest [OF assms(1,2), of x] assms(3) by linarith

lemma nearest_float64_le:
  assumes "\<bar>m\<bar> < 2 ^ 53" "- 1074 \<le> e" "x \<le> of_int m * 2 powi e"
  shows "nearest_float64 x \<le> of_int m * 2 powi e"
  using nearest_float64_nearest [OF assms(1,2), of x] assms(3) by linarith

lemma nearest_float64_exact:
  assumes "\<bar>m\<bar> < 2 ^ 53" "- 1074 \<le> e"
  shows "nearest_float64 (of_int m * 2 powi e) = of_int m * 2 powi e"
  using nearest_float64_nearest [OF assms, of "of_int m * 2 powi e"] by simp

lemma nearest_float64_int_ge:
  assumes "\<bar>k\<bar> < 2 ^ 53" "of_int k \<le> x"
  shows "of_int k \<le> nearest_float64 x"
  using nearest_float64_ge [of k 0 x] assms by simp

lemma nearest_float64_int_le:
  assumes "\<bar>k\<bar> < 2 ^ 53" "x \<le> of_int k"
  shows "nearest_float64 x \<le> of_int k"
  using nearest_float64_le [of k 0 x] assms by simp

lemma nearest_float64_int:
  assumes "\<bar>k\<bar> < 2 ^ 53"
  shows "nearest_float64 (of_int k) = of_int k"
  using nearest_float64_exact [of k 0] assms by simp

lemma round_float64_Finite:
  assumes "0 \<le> x" "nearest_float64 x < 2 ^ 1024"
  shows "round_float64 x = Finite (nearest_float64 x)"
proof -
  have "0 \<le> nearest_float64 x"
    using nearest_float64_int_ge [of 0 x] assms(1) by simp
  moreover have "- (2 ^ 1024) < (0::rat)"
    by simp
  ultimately have "\<not> nearest_float64 x \<le> - (2 ^ 1024)"
    by linarith
  with assms show ?thesis
    by (simp add: round_float64_def Let_def)
qed

lemma round_float64_upto:
  assumes "0 \<le> x" "x \<le> of_int k" "\<bar>k\<bar> < 2 ^ 53"
  shows "round_float64 x = Finite (nearest_float64 x)"
proof -
  have "nearest_float64 x \<le> of_int k"
    using assms by (intro nearest_float64_int_le)
  also have "(of_int k :: rat) < of_int (2 ^ 53)"
    using assms(3) by (simp only: of_int_less_iff)
  also have "(of_int (2 ^ 53) :: rat) < 2 ^ 1024"
    by simp
  finally have "nearest_float64 x < 2 ^ 1024" .
  with assms(1) show ?thesis
    by (rule round_float64_Finite)
qed

lemma float64_int64_exact:
  assumes "0 \<le> i" "i < 2 ^ 53"
  shows "float64_int64 i = Finite (of_int i)"
proof -
  have "round_float64 (of_int i) = Finite (nearest_float64 (of_int i))"
    using assms by (intro round_float64_upto [of _ i]) simp_all
  then show ?thesis
    using assms by (simp add: float64_int64_def nearest_float64_int)
qed

text \<open>
  The value of every finite bit pattern is a fixed point of the rounding, and the rounding
  agrees with the known bit patterns of some decimal fractions.
\<close>

lemma Float64frombits_representable:
  assumes "Float64frombits w = Finite q"
  shows "nearest_float64 q = q"
proof -
  define ex where "ex = take_bit 11 (drop_bit 52 w)"
  define frac where "frac = take_bit 52 w"
  define m where "m = (if ex = 0 then uint frac else 2 ^ 52 + uint frac)"
  define e where "e = (if ex = 0 then - 1074 else uint ex - 1075)"
  have f: "uint frac < 2 ^ 52"
    unfolding frac_def by (simp only: unsigned_take_bit_eq take_bit_int_less_exp)
  have m: "\<bar>m\<bar> < 2 ^ 53"
    using f by (simp add: m_def)
  have "1 \<le> uint ex" if "ex \<noteq> 0"
  proof -
    have "uint ex \<noteq> 0"
      using that by (simp add: uint_0_iff)
    moreover have "0 \<le> uint ex"
      by simp
    ultimately show ?thesis
      by linarith
  qed
  then have e: "- 1074 \<le> e"
    by (auto simp add: e_def)
  have "q = of_int m * 2 powi e \<or> q = - (of_int m * 2 powi e) \<or> q = 0"
    using assms
    by (auto simp add: Float64frombits_def Let_def ex_def [symmetric] frac_def [symmetric]
        m_def e_def infinity_def zero_def split: if_splits)
  then show ?thesis
  proof (elim disjE)
    assume "q = of_int m * 2 powi e"
    then show ?thesis
      using nearest_float64_exact [OF m e] by simp
  next
    assume "q = - (of_int m * 2 powi e)"
    then have "q = of_int (- m) * 2 powi e"
      by simp
    moreover have "\<bar>- m\<bar> < 2 ^ 53"
      using m by simp
    ultimately show ?thesis
      using nearest_float64_exact [of "- m" e] e by simp
  next
    assume "q = 0"
    then show ?thesis
      by (simp add: nearest_float64_0)
  qed
qed

lemma round_float64_tenth: "round_float64 (1 / 10) = Float64frombits 0x3FB999999999999A"
  by code_simp

lemma round_float64_0_29: "round_float64 (29 / 100) = Float64frombits 0x3FD28F5C28F5C28F"
  by code_simp

lemma Float64frombits_specials:
  "Float64frombits 0 = Finite 0"
  "Float64frombits 0x8000000000000000 = NegZero"
  "Float64frombits 0x7FF0000000000000 = PosInf"
  "Float64frombits 0xFFF0000000000000 = NegInf"
  "Float64frombits 0x7FF8000000000000 = NaN"
  "Float64frombits 0x3FF0000000000000 = Finite 1"
  "Float64frombits 0x408F400000000000 = Finite 1000"
  by code_simp+

section \<open>Properties of the timeout\<close>

text \<open>
  For a duration that is not negative, \<open>Seconds\<close> is finite and lies between the whole
  seconds and the next second; below \<open>2\<^sup>2\<^sup>4\<close> seconds it stays under the next second.
\<close>

lemma fdiv_nsec:
  assumes "0 \<le> n" "n < 1000000000"
  shows "fdiv (float64_int64 n) (Finite 1000000000) =
           Finite (nearest_float64 (of_int n / 1000000000))"
    and "0 \<le> nearest_float64 (of_int n / 1000000000)"
    and "nearest_float64 (of_int n / 1000000000) \<le> 9007199245733793 / 9007199254740992"
proof -
  let ?x = "of_int n / 1000000000 :: rat"
  have n: "float64_int64 n = Finite (of_int n)"
    using assms by (intro float64_int64_exact) simp_all
  have x0: "0 \<le> ?x"
    using assms by simp
  have "(of_int n :: rat) \<le> of_int 999999999"
    using assms by (simp only: of_int_le_iff)
  then have xb: "?x \<le> of_int 9007199245733793 * 2 powi (- 53)"
    by (simp add: power_int_minus field_simps)
  have x1: "?x \<le> of_int 1"
    using xb by (simp add: power_int_minus field_simps)
  have r: "round_float64 ?x = Finite (nearest_float64 ?x)"
    using x0 x1 by (rule round_float64_upto) simp
  show "fdiv (float64_int64 n) (Finite 1000000000) = Finite (nearest_float64 ?x)"
    using assms r by (simp add: fdiv_def n zero_def nearest_float64_0)
  show "0 \<le> nearest_float64 ?x"
    using nearest_float64_int_ge [of 0 ?x] x0 by simp
  have "nearest_float64 ?x \<le> of_int 9007199245733793 * 2 powi (- 53)"
    using xb by (intro nearest_float64_le) simp_all
  then show "nearest_float64 ?x \<le> 9007199245733793 / 9007199254740992"
    by (simp add: power_int_minus field_simps)
qed

lemma fadd_sec:
  assumes s: "0 \<le> s" "s < 2 ^ 52" and f: "0 \<le> f" "f \<le> 9007199245733793 / 9007199254740992"
  shows "fadd (float64_int64 s) (Finite f) = Finite (nearest_float64 (of_int s + f))"
    and "of_int s \<le> nearest_float64 (of_int s + f)"
    and "nearest_float64 (of_int s + f) \<le> of_int s + 1"
    and "s < 2 ^ 24 \<Longrightarrow> nearest_float64 (of_int s + f) < of_int s + 1"
proof -
  let ?x = "of_int s + f :: rat"
  have fs: "float64_int64 s = Finite (of_int s)"
    using s by (intro float64_int64_exact) simp_all
  have s0: "(0::rat) \<le> of_int s"
    using s by simp
  have x0: "0 \<le> ?x"
    using s0 f by simp
  have x1: "?x \<le> of_int (s + 1)"
    using f by simp
  have s1: "\<bar>s + 1\<bar> < 2 ^ 53" "\<bar>s\<bar> < 2 ^ 53"
    using s by simp_all
  have r: "round_float64 ?x = Finite (nearest_float64 ?x)"
    using x0 x1 s1(1) by (rule round_float64_upto)
  show "fadd (float64_int64 s) (Finite f) = Finite (nearest_float64 ?x)"
    using r by (simp add: fadd_def fs zero_def nearest_float64_0)
  show "of_int s \<le> nearest_float64 ?x"
    using s1(2) f by (intro nearest_float64_int_ge) simp_all
  have "nearest_float64 ?x \<le> of_int (s + 1)"
    using s1(1) x1 by (rule nearest_float64_int_le)
  then show "nearest_float64 ?x \<le> of_int s + 1"
    by simp
  show "nearest_float64 ?x < of_int s + 1" if "s < 2 ^ 24"
  proof -
    define m where "m = (s + 1) * 2 ^ 29 - 1"
    have m: "\<bar>m\<bar> < 2 ^ 53"
      using s that by (simp add: m_def)
    have y: "of_int m * 2 powi (- 29) = (of_int s + 1 - 1 / 2 ^ 29 :: rat)"
      by (simp add: m_def power_int_minus field_simps)
    have "\<bar>nearest_float64 ?x - ?x\<bar> \<le> \<bar>of_int m * 2 powi (- 29) - ?x\<bar>"
      using m by (rule nearest_float64_nearest) simp
    also have "of_int m * 2 powi (- 29) - ?x = 1 - 1 / 2 ^ 29 - f"
      by (simp only: y)
    finally have "\<bar>nearest_float64 ?x - ?x\<bar> \<le> \<bar>1 - 1 / 2 ^ 29 - f\<bar>" .
    with f show ?thesis
      by (simp add: abs_if split: if_splits)
  qed
qed

lemma Seconds_nonneg:
  assumes "0 \<le> sint d"
  shows "Seconds d =
           Finite (nearest_float64 (of_int (sint d div 1000000000) +
             nearest_float64 (of_int (sint d mod 1000000000) / 1000000000)))"
    and "of_int (sint d div 1000000000) \<le>
           nearest_float64 (of_int (sint d div 1000000000) +
             nearest_float64 (of_int (sint d mod 1000000000) / 1000000000))"
    and "nearest_float64 (of_int (sint d div 1000000000) +
             nearest_float64 (of_int (sint d mod 1000000000) / 1000000000))
           \<le> of_int (sint d div 1000000000) + 1"
    and "sint d < 16777216000000000 \<Longrightarrow>
         nearest_float64 (of_int (sint d div 1000000000) +
             nearest_float64 (of_int (sint d mod 1000000000) / 1000000000))
           < of_int (sint d div 1000000000) + 1"
proof -
  define s where "s = sint d div 1000000000"
  define n where "n = sint d mod 1000000000"
  have "sint d < 2 ^ 63"
    using sint_lt [of d] by simp
  with assms have s: "0 \<le> s" "s < 2 ^ 52"
    by (simp_all add: s_def)
  have n: "0 \<le> n" "n < 1000000000"
    by (simp_all add: n_def)
  have sd: "sint d sdiv 1000000000 = s" "sint d smod 1000000000 = n"
    using assms by (simp_all add: signed_divide_int_def signed_modulo_int_def s_def n_def sgn_if)
  note d = fdiv_nsec [OF n]
  note a = fadd_sec [OF s d(2,3)]
  show "Seconds d = Finite (nearest_float64 (of_int (sint d div 1000000000) +
             nearest_float64 (of_int (sint d mod 1000000000) / 1000000000)))"
    by (simp add: Seconds_def sd d(1) a(1)) (simp add: s_def n_def)
  show "of_int (sint d div 1000000000) \<le>
           nearest_float64 (of_int (sint d div 1000000000) +
             nearest_float64 (of_int (sint d mod 1000000000) / 1000000000))"
    using a(2) by (simp add: s_def n_def)
  show "nearest_float64 (of_int (sint d div 1000000000) +
             nearest_float64 (of_int (sint d mod 1000000000) / 1000000000))
           \<le> of_int (sint d div 1000000000) + 1"
    using a(3) by (simp add: s_def n_def)
  show "nearest_float64 (of_int (sint d div 1000000000) +
             nearest_float64 (of_int (sint d mod 1000000000) / 1000000000))
           < of_int (sint d div 1000000000) + 1" if "sint d < 16777216000000000"
  proof -
    from that have "s < 2 ^ 24"
      by (simp add: s_def)
    then show ?thesis
      using a(4) by (simp add: s_def n_def)
  qed
qed

lemma trunc_nonneg: "0 \<le> x \<Longrightarrow> trunc x = \<lfloor>x\<rfloor>"
  by (simp add: trunc_def)

lemma uint32_float64_in_range:
  assumes "0 \<le> x" "x < 2 ^ 32"
  shows "uint (uint32_float64 unrepresentable (Finite x)) = \<lfloor>x\<rfloor>"
proof -
  have "0 \<le> \<lfloor>x\<rfloor>"
    using assms(1) by simp
  moreover have "\<lfloor>x\<rfloor> < 2 ^ 32"
    using assms(2) by (simp add: floor_less_iff)
  ultimately have "uint (word_of_int \<lfloor>x\<rfloor> :: 32 word) = \<lfloor>x\<rfloor>"
    by (simp add: uint_word_of_int)
  with assms show ?thesis
    by (simp add: uint32_float64_def trunc_nonneg)
qed

lemma TimeoutSecs_sandboxDefinition:
  "TimeoutSecs (sandboxDefinition unrepresentable img options mounts) =
     uint32_float64 unrepresentable (Seconds (Timeout options))"
  by (simp add: sandboxDefinition_def)

lemma CreateSandbox_timeout_seconds_aux:
  assumes "0 \<le> sint (Timeout options)"
    and "sint (Timeout options) < 16777216 * 1000000000"
  shows "uint (TimeoutSecs (sandboxDefinition unrepresentable img options mounts)) =
           \<lfloor>of_int (sint (Timeout options)) / 1000000000 :: rat\<rfloor>"
proof -
  let ?d = "Timeout options"
  let ?s = "sint ?d div 1000000000"
  let ?t = "nearest_float64 (of_int ?s +
              nearest_float64 (of_int (sint ?d mod 1000000000) / 1000000000))"
  note S = Seconds_nonneg [OF assms(1)]
  have lt: "?t < of_int ?s + 1"
    using assms(2) by (intro S(4)) simp
  have "?s + 1 \<le> 4294967296"
    using assms(2) by simp
  then have "(of_int (?s + 1) :: rat) \<le> of_int 4294967296"
    by (simp only: of_int_le_iff)
  then have "(of_int ?s :: rat) + 1 \<le> 2 ^ 32"
    by simp
  with lt have r: "?t < 2 ^ 32"
    by linarith
  have "0 \<le> ?s"
    using assms(1) by simp
  then have "(0::rat) \<le> of_int ?s"
    by (simp only: of_int_0_le_iff)
  with S(2) have t0: "0 \<le> ?t"
    by linarith
  have "\<lfloor>?t\<rfloor> = ?s"
    using S(2) lt by (simp add: floor_unique)
  moreover have "uint (TimeoutSecs (sandboxDefinition unrepresentable img options mounts)) = \<lfloor>?t\<rfloor>"
    using t0 r by (simp only: TimeoutSecs_sandboxDefinition S(1) uint32_float64_in_range)
  moreover have "\<lfloor>of_int (sint ?d) / 1000000000 :: rat\<rfloor> = ?s"
    using floor_divide_of_int_eq [of "sint ?d" 1000000000, where ?'a = rat] by simp
  ultimately show ?thesis
    by simp
qed

lemma floor_rat_numeral:
  "\<lfloor>numeral a / numeral b :: rat\<rfloor> = numeral a div numeral b"
  using floor_divide_of_int_eq [of "numeral a" "numeral b", where ?'a = rat] by simp

lemma nearest_float64_nsec_max:
  "nearest_float64 (of_int 999999999 / 1000000000) = 9007199245733793 / 9007199254740992"
  by code_simp

lemma nearest_float64_sec_2_24:
  "nearest_float64 (of_int 16777216 + 9007199245733793 / 9007199254740992) = 16777217"
  by code_simp

lemma Seconds_2_24: "Seconds 16777216999999999 = Finite 16777217"
proof -
  have d: "sint (16777216999999999 :: 64 word) = 16777216999999999"
    by simp
  have "0 \<le> sint (16777216999999999 :: 64 word)"
    by simp
  from Seconds_nonneg(1) [OF this] show ?thesis
    unfolding d by (simp add: nearest_float64_nsec_max nearest_float64_sec_2_24 del: of_int_numeral)
qed

text \<open>
  C5 fails as stated.  \<open>Seconds\<close> adds the whole seconds and the remainder as \<open>float64\<close>;
  from \<open>2\<^sup>2\<^sup>4\<close> seconds on the sum has too few fraction bits left for a remainder of
  \<open>0.999999999\<close> seconds and rounds up to the next second: a timeout of
  \<open>16777216.999999999\<close> seconds compiles to \<open>16777217\<close>.
\<close>

theorem CreateSandbox_timeout_counterexample:
  "uint (TimeoutSecs
       (sandboxDefinition (\<lambda>v. 0) \<lparr>Image.ImageId = ''im-1''\<rparr>
          \<lparr>CPU = 0, Memory = 0, Timeout = 16777216999999999, Command = [], Volumes = None,
           EncryptedPorts = [], H2Ports = [], UnencryptedPorts = []\<rparr> [])) = 16777217
   \<and> \<lfloor>16777216999999999 / 1000000000 :: rat\<rfloor> = 16777216"
  by (simp add: TimeoutSecs_sandboxDefinition Seconds_2_24 uint32_float64_def trunc_def
      floor_rat_numeral)

text \<open>
  C5, as amended.  For every timeout from zero to below \<open>2\<^sup>2\<^sup>4\<close> seconds, the timeout field
  of the compiled definition is the floor of the duration in seconds.
\<close>

theorem CreateSandbox_timeout_seconds:
  assumes "0 \<le> sint (Timeout options)"
    and "sint (Timeout options) < 16777216 * 1000000000"
  shows "uint (TimeoutSecs (sandboxDefinition unrepresentable img options mounts)) =
           \<lfloor>of_int (sint (Timeout options)) / 1000000000 :: rat\<rfloor>"
  using assms by (rule CreateSandbox_timeout_seconds_aux)

theorem CreateSandbox_timeout_seconds_witness:
  "0 \<le> sint (Timeout
       \<lparr>CPU = 0, Memory = 0, Timeout = 90700000000, Command = [], Volumes = None,
        EncryptedPorts = [], H2Ports = [], UnencryptedPorts = []\<rparr>)
   \<and> sint (Timeout
       \<lparr>CPU = 0, Memory = 0, Timeout = 90700000000, Command = [], Volumes = None,
        EncryptedPorts = [], H2Ports = [], UnencryptedPorts = []\<rparr>) < 16777216 * 1000000000
   \<and> uint (TimeoutSecs
       (sandboxDefinition (\<lambda>v. 0) \<lparr>Image.ImageId = ''im-1''\<rparr>
          \<lparr>CPU = 0, Memory = 0, Timeout = 90700000000, Command = [], Volumes = None,
           EncryptedPorts = [], H2Ports = [], UnencryptedPorts = []\<rparr> [])) = 90"
proof -
  let ?options =
    "\<lparr>CPU = 0, Memory = 0, Timeout = 90700000000, Command = [], Volumes = None,
      EncryptedPorts = [], H2Ports = [], UnencryptedPorts = []\<rparr>"
  have h1: "0 \<le> sint (Timeout ?options)"
    by simp
  have h2: "sint (Timeout ?options) < 16777216 * 1000000000"
    by simp
  show ?thesis
    using h1 h2 CreateSandbox_timeout_seconds [OF h1 h2, of "\<lambda>v. 0" "\<lparr>Image.ImageId = ''im-1''\<rparr>" "[]"]
    by (simp add: floor_rat_numeral)
qed

text \<open>A timeout of 1.9 seconds compiles to 1.\<close>

lemma timeout_1_9_seconds:
  "uint (TimeoutSecs
       (sandboxDefinition unrepresentable img
          \<lparr>CPU = 0, Memory = 0, Timeout = 1900000000, Command = [], Volumes = None,
           EncryptedPorts = [], H2Ports = [], UnencryptedPorts = []\<rparr> mounts)) = 1"
proof -
  let ?options =
    "\<lparr>CPU = 0, Memory = 0, Timeout = 1900000000, Command = [], Volumes = None,
      EncryptedPorts = [], H2Ports = [], UnencryptedPorts = []\<rparr>"
  have h1: "0 \<le> sint (Timeout ?options)"
    by simp
  have h2: "sint (Timeout ?options) < 16777216 * 1000000000"
    by simp
  show ?thesis
    using CreateSandbox_timeout_seconds_aux [OF h1 h2, of unrepresentable img mounts]
    by (simp add: floor_rat_numeral)
qed

text \<open>
  From \<open>2\<^sup>2\<^sup>4\<close> seconds up to \<open>2\<^sup>3\<^sup>2 - 1\<close> seconds the field is that floor or one more.
\<close>

lemma CreateSandbox_timeout_rounding:
  assumes "0 \<le> sint (Timeout options)"
    and "sint (Timeout options) < 4294967295 * 1000000000"
  shows "uint (TimeoutSecs (sandboxDefinition unrepresentable img options mounts)) =
           sint (Timeout options) div 1000000000
       \<or> uint (TimeoutSecs (sandboxDefinition unrepresentable img options mounts)) =
           sint (Timeout options) div 1000000000 + 1"
proof -
  let ?d = "Timeout options"
  let ?s = "sint ?d div 1000000000"
  let ?t = "nearest_float64 (of_int ?s +
              nearest_float64 (of_int (sint ?d mod 1000000000) / 1000000000))"
  note S = Seconds_nonneg [OF assms(1)]
  have "?s + 1 \<le> 4294967295"
    using assms(2) by simp
  then have "(of_int (?s + 1) :: rat) \<le> of_int 4294967295"
    by (simp only: of_int_le_iff)
  then have "(of_int ?s :: rat) + 1 < 2 ^ 32"
    by simp
  with S(3) have r: "?t < 2 ^ 32"
    by linarith
  have "0 \<le> ?s"
    using assms(1) by simp
  then have "(0::rat) \<le> of_int ?s"
    by (simp only: of_int_0_le_iff)
  with S(2) have t0: "0 \<le> ?t"
    by linarith
  have u: "uint (TimeoutSecs (sandboxDefinition unrepresentable img options mounts)) = \<lfloor>?t\<rfloor>"
    using t0 r by (simp only: TimeoutSecs_sandboxDefinition S(1) uint32_float64_in_range)
  have "?s \<le> \<lfloor>?t\<rfloor>"
    using S(2) by (simp add: le_floor_iff)
  moreover have "\<lfloor>?t\<rfloor> \<le> ?s + 1"
  proof -
    have "?t \<le> of_int (?s + 1)"
      using S(3) by simp
    then have "\<lfloor>?t\<rfloor> \<le> \<lfloor>of_int (?s + 1) :: rat\<rfloor>"
      by (rule floor_mono)
    then show ?thesis
      by (simp only: floor_of_int)
  qed
  ultimately show ?thesis
    unfolding u by linarith
qed

text \<open>
  A negative duration is truncated towards zero, not floored: minus half a second compiles
  to 0.  From minus one second down, and from \<open>2\<^sup>3\<^sup>2\<close> seconds up, the conversion has no
  representable result and the field is what the implementation gives.
\<close>

lemma nearest_float64_minus_half: "nearest_float64 (- (1 / 2)) = - (1 / 2)"
  by code_simp

lemma nearest_float64_minus_nsec: "nearest_float64 (- 500000000) = - 500000000"
  by code_simp

lemma Seconds_minus_half: "Seconds (- 500000000) = Finite (- (1 / 2))"
proof -
  have d: "sint (- 500000000 :: 64 word) = - 500000000"
    by simp
  have "(- 500000000 :: int) sdiv 1000000000 = 0" "(- 500000000 :: int) smod 1000000000 = - 500000000"
    by (simp_all add: signed_divide_int_def signed_modulo_int_def)
  then show ?thesis
    by (simp add: Seconds_def d float64_int64_def round_float64_def nearest_float64_0
        nearest_float64_minus_nsec fdiv_def fadd_def nearest_float64_minus_half Let_def)
qed

lemma timeout_minus_half_second:
  "uint (TimeoutSecs
       (sandboxDefinition unrepresentable img
          \<lparr>CPU = 0, Memory = 0, Timeout = - 500000000, Command = [], Volumes = None,
           EncryptedPorts = [], H2Ports = [], UnencryptedPorts = []\<rparr> mounts)) = 0"
proof -
  have "\<lceil>- (1 / 2) :: rat\<rceil> = 0"
    by (rule ceiling_unique) simp_all
  then show ?thesis
    by (simp add: TimeoutSecs_sandboxDefinition Seconds_minus_half uint32_float64_def trunc_def)
qed

lemma uint32_float64_unrepresentable:
  "x \<le> - 1 \<or> 2 ^ 32 \<le> x \<Longrightarrow>
   uint32_float64 unrepresentable (Finite x) = unrepresentable (Finite x)"
  by (auto simp add: uint32_float64_def)

section \<open>Properties of the resources\<close>

lemma fmul_1000:
  assumes "0 \<le> c" "nearest_float64 (1000 * c) < 2 ^ 32"
  shows "fmul (Finite 1000) (Finite c) = Finite (nearest_float64 (1000 * c))"
    and "0 \<le> nearest_float64 (1000 * c)"
    and "\<lfloor>1000 * c\<rfloor> \<le> \<lfloor>nearest_float64 (1000 * c)\<rfloor>"
    and "\<lfloor>nearest_float64 (1000 * c)\<rfloor> \<le> \<lfloor>1000 * c\<rfloor> + 1"
proof -
  let ?x = "1000 * c"
  have x0: "0 \<le> ?x"
    using assms(1) by simp
  have "nearest_float64 ?x < 2 ^ 1024"
  proof -
    have "(2::rat) ^ 32 < 2 ^ 1024"
      by simp
    with assms(2) show ?thesis
      by linarith
  qed
  with x0 have r: "round_float64 ?x = Finite (nearest_float64 ?x)"
    by (rule round_float64_Finite)
  show "fmul (Finite 1000) (Finite c) = Finite (nearest_float64 ?x)"
    using r assms(1) by (simp add: fmul_def zero_def nearest_float64_0)
  show n0: "0 \<le> nearest_float64 ?x"
    using nearest_float64_int_ge [of 0 ?x] x0 by simp
  have xlt: "?x < 2 ^ 32"
  proof (rule ccontr)
    assume "\<not> ?x < 2 ^ 32"
    then have "of_int 4294967296 \<le> ?x"
      by simp
    then have "of_int 4294967296 \<le> nearest_float64 ?x"
      by (intro nearest_float64_int_ge) simp_all
    with assms(2) show False
      by simp
  qed
  define k where "k = \<lfloor>?x\<rfloor>"
  have k0: "0 \<le> k"
    using x0 by (simp add: k_def)
  have "k < 2 ^ 32"
    using xlt by (simp add: k_def floor_less_iff)
  with k0 have kb: "\<bar>k\<bar> < 2 ^ 53" "\<bar>k + 1\<bar> < 2 ^ 53"
    by simp_all
  have "of_int k \<le> ?x"
    by (simp add: k_def)
  then have "of_int k \<le> nearest_float64 ?x"
    using kb(1) by (intro nearest_float64_int_ge)
  then show "\<lfloor>?x\<rfloor> \<le> \<lfloor>nearest_float64 ?x\<rfloor>"
    by (simp add: k_def [symmetric] le_floor_iff)
  have "?x \<le> of_int (k + 1)"
    unfolding k_def by (metis floor_less_iff less_le_not_le linorder_le_cases zle_add1_eq_le)
  then have "nearest_float64 ?x \<le> of_int (k + 1)"
    using kb(2) by (intro nearest_float64_int_le)
  then have "\<lfloor>nearest_float64 ?x\<rfloor> \<le> k + 1"
    by (metis floor_mono floor_of_int)
  then show "\<lfloor>nearest_float64 ?x\<rfloor> \<le> \<lfloor>?x\<rfloor> + 1"
    by (simp add: k_def)
qed

lemma Resources_sandboxDefinition:
  "MilliCpu (Resources (sandboxDefinition unrepresentable img options mounts)) =
     uint32_float64 unrepresentable (fmul (Finite 1000) (Float64frombits (CPU options)))"
  "MemoryMb (Resources (sandboxDefinition unrepresentable img options mounts)) =
     uint32_int (Memory options)"
  by (simp_all add: sandboxDefinition_def)

lemma uint32_int_in_range:
  assumes "0 \<le> sint m" "sint m < 2 ^ 32"
  shows "uint (uint32_int m) = sint m"
  using assms by (simp add: uint32_int_mod)

lemma CreateSandbox_resources_aux:
  assumes "Float64frombits (CPU options) = Finite c"
    and "0 \<le> c"
    and "nearest_float64 (1000 * c) < 2 ^ 32"
  shows "uint (MilliCpu (Resources (sandboxDefinition unrepresentable img options mounts))) =
           \<lfloor>nearest_float64 (1000 * c)\<rfloor>
       \<and> \<lfloor>1000 * c\<rfloor> \<le> \<lfloor>nearest_float64 (1000 * c)\<rfloor>
       \<and> \<lfloor>nearest_float64 (1000 * c)\<rfloor> \<le> \<lfloor>1000 * c\<rfloor> + 1
       \<and> (0 \<le> sint (Memory options) \<and> sint (Memory options) < 2 ^ 32 \<longrightarrow>
            uint (MemoryMb (Resources (sandboxDefinition unrepresentable img options mounts))) =
              sint (Memory options))"
proof -
  note m = fmul_1000 [OF assms(2,3)]
  have "uint (MilliCpu (Resources (sandboxDefinition unrepresentable img options mounts))) =
           \<lfloor>nearest_float64 (1000 * c)\<rfloor>"
    using m(2) assms(3)
    by (simp only: Resources_sandboxDefinition assms(1) m(1) uint32_float64_in_range)
  with m(3,4) show ?thesis
    by (simp add: Resources_sandboxDefinition uint32_int_in_range)
qed

lemma Float64frombits_0_29:
  "Float64frombits 0x3FD28F5C28F5C28F = Finite (5224175567749775 / 18014398509481984)"
  by code_simp

lemma nearest_float64_290:
  "nearest_float64 (1000 * (5224175567749775 / 18014398509481984)) = 290"
  by code_simp

text \<open>
  C6 fails as stated.  The product \<open>1000 * CPU\<close> is a \<open>float64\<close> product and is rounded
  before it is truncated: for the \<open>float64\<close> nearest to \<open>0.29\<close>, which is a little less than
  \<open>0.29\<close>, the floor of the exact product is 289 and the field is 290.  The memory is
  converted to \<open>uint32\<close>: a request of \<open>-1\<close> becomes \<open>4294967295\<close>.
\<close>

theorem CreateSandbox_resources_counterexample:
  "Float64frombits 0x3FD28F5C28F5C28F = Finite (5224175567749775 / 18014398509481984)
   \<and> \<lfloor>1000 * (5224175567749775 / 18014398509481984) :: rat\<rfloor> = 289
   \<and> uint (MilliCpu (Resources
       (sandboxDefinition (\<lambda>v. 0) \<lparr>Image.ImageId = ''im-1''\<rparr>
          \<lparr>CPU = 0x3FD28F5C28F5C28F, Memory = - 1, Timeout = 0, Command = [], Volumes = None,
           EncryptedPorts = [], H2Ports = [], UnencryptedPorts = []\<rparr> []))) = 290
   \<and> sint (Memory
       \<lparr>CPU = 0x3FD28F5C28F5C28F, Memory = - 1, Timeout = 0, Command = [], Volumes = None,
        EncryptedPorts = [], H2Ports = [], UnencryptedPorts = []\<rparr>) = - 1
   \<and> uint (MemoryMb (Resources
       (sandboxDefinition (\<lambda>v. 0) \<lparr>Image.ImageId = ''im-1''\<rparr>
          \<lparr>CPU = 0x3FD28F5C28F5C28F, Memory = - 1, Timeout = 0, Command = [], Volumes = None,
           EncryptedPorts = [], H2Ports = [], UnencryptedPorts = []\<rparr> []))) = 4294967295"
proof -
  let ?options =
    "\<lparr>CPU = 0x3FD28F5C28F5C28F, Memory = - 1, Timeout = 0, Command = [], Volumes = None,
      EncryptedPorts = [], H2Ports = [], UnencryptedPorts = []\<rparr>"
  have h1: "Float64frombits (CPU ?options) = Finite (5224175567749775 / 18014398509481984)"
    by (simp add: Float64frombits_0_29)
  have h2: "(0::rat) \<le> 5224175567749775 / 18014398509481984"
    by simp
  have h3: "nearest_float64 (1000 * (5224175567749775 / 18014398509481984)) < 2 ^ 32"
    by (simp only: nearest_float64_290) simp
  have f: "\<lfloor>1000 * (5224175567749775 / 18014398509481984) :: rat\<rfloor> = 289"
    by (rule floor_unique) simp_all
  have "uint (MilliCpu (Resources
       (sandboxDefinition (\<lambda>v. 0) \<lparr>Image.ImageId = ''im-1''\<rparr> ?options []))) = 290"
    using CreateSandbox_resources_aux [OF h1 h2 h3, of "\<lambda>v. 0" "\<lparr>Image.ImageId = ''im-1''\<rparr>" "[]"]
    by (simp only: nearest_float64_290) simp
  moreover have "uint (MemoryMb (Resources
       (sandboxDefinition (\<lambda>v. 0) \<lparr>Image.ImageId = ''im-1''\<rparr> ?options []))) = 4294967295"
    by (simp add: Resources_sandboxDefinition uint32_int_mod)
  ultimately show ?thesis
    using f by (simp add: Float64frombits_0_29)
qed

text \<open>
  C6, as amended.  For every finite CPU request \<open>c \<ge> 0\<close> whose rounded product
  \<open>1000 * c\<close> is below \<open>2\<^sup>3\<^sup>2\<close>, the milli-CPU field is the floor of that rounded product, which
  is the floor of the exact product or one more; a memory request from 0 to below \<open>2\<^sup>3\<^sup>2\<close>
  is passed through unchanged.
\<close>

theorem CreateSandbox_resources:
  assumes "Float64frombits (CPU options) = Finite c"
    and "0 \<le> c"
    and "nearest_float64 (1000 * c) < 2 ^ 32"
  shows "uint (MilliCpu (Resources (sandboxDefinition unrepresentable img options mounts))) =
           \<lfloor>nearest_float64 (1000 * c)\<rfloor>
       \<and> \<lfloor>1000 * c\<rfloor> \<le> \<lfloor>nearest_float64 (1000 * c)\<rfloor>
       \<and> \<lfloor>nearest_float64 (1000 * c)\<rfloor> \<le> \<lfloor>1000 * c\<rfloor> + 1
       \<and> (0 \<le> sint (Memory options) \<and> sint (Memory options) < 2 ^ 32 \<longrightarrow>
            uint (MemoryMb (Resources (sandboxDefinition unrepresentable img options mounts))) =
              sint (Memory options))"
  using assms by (rule CreateSandbox_resources_aux)

lemma Float64frombits_quarter: "Float64frombits 0x3FD0000000000000 = Finite (1 / 4)"
  by code_simp

lemma nearest_float64_250: "nearest_float64 250 = 250"
  by code_simp

theorem CreateSandbox_resources_witness:
  "Float64frombits
     (CPU \<lparr>CPU = 0x3FD0000000000000, Memory = 512, Timeout = 0, Command = [], Volumes = None,
           EncryptedPorts = [], H2Ports = [], UnencryptedPorts = []\<rparr>) = Finite (1 / 4)
   \<and> (0::rat) \<le> 1 / 4
   \<and> nearest_float64 (1000 * (1 / 4)) < 2 ^ 32
   \<and> 0 \<le> sint (Memory
       \<lparr>CPU = 0x3FD0000000000000, Memory = 512, Timeout = 0, Command = [], Volumes = None,
        EncryptedPorts = [], H2Ports = [], UnencryptedPorts = []\<rparr>)
   \<and> sint (Memory
       \<lparr>CPU = 0x3FD0000000000000, Memory = 512, Timeout = 0, Command = [], Volumes = None,
        EncryptedPorts = [], H2Ports = [], UnencryptedPorts = []\<rparr>) < 2 ^ 32
   \<and> uint (MilliCpu (Resources
       (sandboxDefinition (\<lambda>v. 0) \<lparr>Image.ImageId = ''im-1''\<rparr>
          \<lparr>CPU = 0x3FD0000000000000, Memory = 512, Timeout = 0, Command = [], Volumes = None,
           EncryptedPorts = [], H2Ports = [], UnencryptedPorts = []\<rparr> []))) = 250
   \<and> uint (MemoryMb (Resources
       (sandboxDefinition (\<lambda>v. 0) \<lparr>Image.ImageId = ''im-1''\<rparr>
          \<lparr>CPU = 0x3FD0000000000000, Memory = 512, Timeout = 0, Command = [], Volumes = None,
           EncryptedPorts = [], H2Ports = [], UnencryptedPorts = []\<rparr> []))) = 512"
proof -
  let ?options =
    "\<lparr>CPU = 0x3FD0000000000000, Memory = 512, Timeout = 0, Command = [], Volumes = None,
      EncryptedPorts = [], H2Ports = [], UnencryptedPorts = []\<rparr>"
  have h1: "Float64frombits (CPU ?options) = Finite (1 / 4)"
    by (simp add: Float64frombits_quarter)
  have h2: "(0::rat) \<le> 1 / 4"
    by simp
  have h3: "nearest_float64 (1000 * (1 / 4)) < 2 ^ 32"
    by (simp add: nearest_float64_250)
  show ?thesis
    using h1 h2 h3
      CreateSandbox_resources [OF h1 h2 h3, of "\<lambda>v. 0" "\<lparr>Image.ImageId = ''im-1''\<rparr>" "[]"]
    by (simp add: nearest_float64_250)
qed

end
